theory Spec2Isabelle
  imports Main "HOL-Library.Word" "HOL-Library.Signed_Division"
begin

unbundle bit_operations_syntax

section \<open>Byte windows and error codes (avro.h)\<close>

text \<open>
  A buffer is a list of bytes.  The C code walks it with a cursor \<open>*pos\<close> and a limit
  \<open>max\<close> (written \<open>mx\<close> below), both pointers into the same buffer; the model keeps them
  as indices counted from the base of the buffer, so that the pointer difference \<open>*pos - buf\<close> is the index itself.
  Every function documents the precondition \<open>max >= *pos\<close>.

  \<open>AvroErrorCode\<close>: \<open>ERR_NONE\<close> is the \<open>Inr\<close> side of the result, carrying the output
  parameters and the advanced cursor; the other three codes are the \<open>Inl\<close> side.
  \<open>PY_LONG_LONG\<close>, \<open>Py_ssize_t\<close> and (on LP64 hosts) \<open>long\<close> are 64-bit words.
\<close>

type_synonym byte = "8 word"

datatype AvroErrorCode = ERR_OOM | ERR_EOF | ERR_OVERFLOW

text \<open>\<open>memcpy(*pos, b, len)\<close> into the buffer at index \<open>pos\<close>.\<close>

definition memcpy :: "byte list \<Rightarrow> nat \<Rightarrow> byte list \<Rightarrow> byte list" where
  "memcpy buf pos bs = take pos buf @ bs @ drop (pos + length bs) buf"

section \<open>Avro integers (avro.c)\<close>

text \<open>The zig-zag mapping \<open>(l << 1) ^ (l >> 63)\<close> on a signed 64-bit value.\<close>

definition zigzag :: "64 word \<Rightarrow> 64 word" where
  "zigzag l = push_bit 1 l XOR signed_drop_bit 63 l"

text \<open>
  The loop of \<open>read_long\<close>.  \<open>offset\<close> starts at 0 and grows by one, so the source's test
  \<open>offset == max_offset\<close> fires exactly when \<open>max_offset \<le> offset\<close>.
\<close>

function read_long_loop ::
  "byte list \<Rightarrow> nat \<Rightarrow> nat \<Rightarrow> nat \<Rightarrow> 64 word \<Rightarrow> AvroErrorCode + (64 word \<times> nat)" where
  "read_long_loop buf pos max_offset offset val =
     (if max_offset \<le> offset then Inl (if offset = 10 then ERR_OVERFLOW else ERR_EOF)
      else
        let b = buf ! (pos + offset);
            val' = val OR push_bit (7 * offset) (ucast (b AND 0x7F));
            offset' = offset + 1
        in if b AND 0x80 \<noteq> 0 then read_long_loop buf pos max_offset offset' val'
           else Inr (val', offset'))"
  by pat_completeness auto
termination
  by (relation "measure (\<lambda>(buf, pos, max_offset, offset, val). max_offset - offset)") auto

definition read_long :: "byte list \<Rightarrow> nat \<Rightarrow> nat \<Rightarrow> AvroErrorCode + (64 word \<times> nat)" where
  "read_long buf pos mx =
     (let max_offset = (if mx - pos < 10 then mx - pos else 10)
      in case read_long_loop buf pos max_offset 0 0 of
           Inl e \<Rightarrow> Inl e
         | Inr (val, offset) \<Rightarrow>
             Inr (drop_bit 1 val XOR - (val AND 1), pos + offset))"

text \<open>
  \<open>read_int\<close>: the accumulator is a \<open>uint32_t\<close>; each step computes the OR in 64 bits and
  stores it back truncated to 32 bits.  The result is an \<open>int32_t\<close> widened to \<open>long\<close>.
\<close>

function read_int_loop ::
  "byte list \<Rightarrow> nat \<Rightarrow> nat \<Rightarrow> nat \<Rightarrow> 32 word \<Rightarrow> AvroErrorCode + (32 word \<times> nat)" where
  "read_int_loop buf pos max_offset offset val =
     (if max_offset \<le> offset then Inl (if offset = 5 then ERR_OVERFLOW else ERR_EOF)
      else
        let b = buf ! (pos + offset);
            val' = (ucast ((ucast val :: 64 word)
                      OR push_bit (7 * offset) (ucast (b AND 0x7F) :: 64 word)) :: 32 word);
            offset' = offset + 1
        in if b AND 0x80 \<noteq> 0 then read_int_loop buf pos max_offset offset' val'
           else Inr (val', offset'))"
  by pat_completeness auto
termination
  by (relation "measure (\<lambda>(buf, pos, max_offset, offset, val). max_offset - offset)") auto

definition read_int :: "byte list \<Rightarrow> nat \<Rightarrow> nat \<Rightarrow> AvroErrorCode + (64 word \<times> nat)" where
  "read_int buf pos mx =
     (let max_offset = (if mx - pos < 5 then mx - pos else 5)
      in case read_int_loop buf pos max_offset 0 0 of
           Inl e \<Rightarrow> Inl e
         | Inr (val, offset) \<Rightarrow>
             Inr (scast (drop_bit 1 val XOR - (val AND 1)), pos + offset))"

text \<open>
  The loop shared by \<open>size_long\<close> and \<open>write_long\<close>: \<open>while (n & ~0x7F)\<close>.  \<open>write_long\<close>
  collects the bytes in a local array before copying them.
\<close>

function write_long_loop :: "64 word \<Rightarrow> byte list \<Rightarrow> byte list \<times> 64 word" where
  "write_long_loop n out =
     (if n AND NOT 0x7F \<noteq> 0
      then write_long_loop (drop_bit 7 n) (out @ [(ucast n AND 0x7F) OR 0x80])
      else (out, n))"
  by pat_completeness auto
termination
proof (relation "measure (\<lambda>(n, out). unat n)")
  show "wf (measure (\<lambda>(n, out). unat n))" by simp
next
  fix n :: "64 word" and out :: "byte list"
  assume "n AND NOT 0x7F \<noteq> 0"
  then have "n \<noteq> 0" by auto
  then have "0 < unat n" by (simp add: unat_gt_0)
  then have "unat n div 2 ^ 7 < unat n" by simp
  then show "((drop_bit 7 n, out @ [(ucast n AND 0x7F) OR 0x80]), (n, out))
      \<in> measure (\<lambda>(n, out). unat n)"
    by (simp add: drop_bit_eq_div unat_div)
qed

definition long_bytes :: "64 word \<Rightarrow> byte list" where
  "long_bytes l = (case write_long_loop (zigzag l) [] of (out, n) \<Rightarrow> out @ [ucast n])"

definition write_long ::
  "byte list \<Rightarrow> nat \<Rightarrow> nat \<Rightarrow> 64 word \<Rightarrow> AvroErrorCode + (byte list \<times> nat)" where
  "write_long buf pos mx l =
     (let bs = long_bytes l
      in if pos + length bs > mx then Inl ERR_EOF
         else Inr (memcpy buf pos bs, pos + length bs))"

function size_long_loop :: "64 word \<Rightarrow> nat \<Rightarrow> nat" where
  "size_long_loop n len =
     (if n AND NOT 0x7F \<noteq> 0 then size_long_loop (drop_bit 7 n) (len + 1) else len)"
  by pat_completeness auto
termination
proof (relation "measure (\<lambda>(n, len). unat n)")
  show "wf (measure (\<lambda>(n, len). unat n))" by simp
next
  fix n :: "64 word" and len :: nat
  assume "n AND NOT 0x7F \<noteq> 0"
  then have "n \<noteq> 0" by auto
  then have "0 < unat n" by (simp add: unat_gt_0)
  then have "unat n div 2 ^ 7 < unat n" by simp
  then show "((drop_bit 7 n, len + 1), (n, len)) \<in> measure (\<lambda>(n, len). unat n)"
    by (simp add: drop_bit_eq_div unat_div)
qed

definition size_long :: "64 word \<Rightarrow> nat" where
  "size_long l = size_long_loop (zigzag l) 0 + 1"


text \<open>
  The bytes that the loop of \<open>write_long\<close> emits for \<open>n\<close>, as a list function; the
  loop lemmas are stated against it.
\<close>

function varint_bytes :: "64 word \<Rightarrow> byte list" where
  "varint_bytes n =
     (if n AND NOT 0x7F \<noteq> 0
      then ((ucast n AND 0x7F) OR 0x80) # varint_bytes (drop_bit 7 n)
      else [ucast n])"
  by pat_completeness auto
termination
proof (relation "measure unat")
  show "wf (measure (unat :: 64 word \<Rightarrow> nat))" by simp
next
  fix n :: "64 word"
  assume "n AND NOT 0x7F \<noteq> 0"
  then have "n \<noteq> 0" by auto
  then have "0 < unat n" by (simp add: unat_gt_0)
  then have "unat n div 2 ^ 7 < unat n" by simp
  then show "(drop_bit 7 n, n) \<in> measure unat"
    by (simp add: drop_bit_eq_div unat_div)
qed


text \<open>
  Statement-side functions for \<open>read_int\<close>: the payload of a varint as an unbounded number
  (seven bits per byte, least significant group first), and zig-zag decoding on numbers.
\<close>

fun varint_payload :: "byte list \<Rightarrow> nat" where
  "varint_payload [] = 0"
| "varint_payload (b # bs) = unat (b AND 0x7F) + 128 * varint_payload bs"

definition zigzag_decode :: "nat \<Rightarrow> int" where
  "zigzag_decode v = (if even v then int (v div 2) else - int (v div 2) - 1)"

section \<open>The other Avro primitives (avro.c)\<close>

text \<open>\<open>AVRO_RETURN_ERROR(s)\<close>: leave the function with the error of \<open>s\<close>, or go on.\<close>

definition AVRO_RETURN_ERROR ::
  "AvroErrorCode + 'a \<Rightarrow> ('a \<Rightarrow> AvroErrorCode + 'b) \<Rightarrow> AvroErrorCode + 'b" where
  "AVRO_RETURN_ERROR s k = (case s of Inl e \<Rightarrow> Inl e | Inr x \<Rightarrow> k x)"

definition read_boolean :: "byte list \<Rightarrow> nat \<Rightarrow> nat \<Rightarrow> AvroErrorCode + (bool \<times> nat)" where
  "read_boolean buf pos mx =
     (if pos + 1 > mx then Inl ERR_EOF
      else let temp_b = buf ! pos
           in if temp_b \<noteq> 0 \<and> temp_b \<noteq> 1 then Inl ERR_OVERFLOW
              else Inr (temp_b = 1, pos + 1))"

text \<open>
  \<open>read_size\<close>: \<open>Py_ssize_t\<close> is as wide as \<open>PY_LONG_LONG\<close>, so the range test guarded by
  \<open>sizeof\<close> is not compiled in.
\<close>

definition read_size :: "byte list \<Rightarrow> nat \<Rightarrow> nat \<Rightarrow> AvroErrorCode + (64 word \<times> nat)" where
  "read_size buf pos mx = AVRO_RETURN_ERROR (read_long buf pos mx) Inr"

text \<open>The length comes back as a number once it is known not to be negative.\<close>

definition read_bytes_len :: "byte list \<Rightarrow> nat \<Rightarrow> nat \<Rightarrow> AvroErrorCode + (nat \<times> nat)" where
  "read_bytes_len buf pos mx =
     AVRO_RETURN_ERROR (read_size buf pos mx) (\<lambda>(temp_len, pos).
       if sint temp_len < 0 then Inl ERR_OVERFLOW
       else if pos + unat temp_len > mx then Inl ERR_EOF
       else Inr (unat temp_len, pos))"

definition read_bytes_data :: "byte list \<Rightarrow> nat \<Rightarrow> nat \<Rightarrow> byte list \<times> nat" where
  "read_bytes_data buf pos len = (take len (drop pos buf), pos + len)"

text \<open>
  \<open>read_digits\<close>.  The accumulator \<open>temp_i\<close> is a C \<open>long\<close>; the callers ask for at most six
  digits, far from its range, so it is an unbounded integer here.  The loop returns the
  cursor, the digit count and the value.
\<close>

function read_digits_loop ::
  "byte list \<Rightarrow> nat \<Rightarrow> nat \<Rightarrow> nat \<Rightarrow> nat \<Rightarrow> int \<Rightarrow> nat \<times> nat \<times> int" where
  "read_digits_loop buf pos mx max_digits temp_digits temp_i =
     (if temp_digits \<le> max_digits \<and> pos < mx \<and> buf ! pos \<ge> 0x30 \<and> buf ! pos \<le> 0x39
      then read_digits_loop buf (pos + 1) mx max_digits (temp_digits + 1)
             (temp_i * 10 + (uint (buf ! pos) - 0x30))
      else (pos, temp_digits, temp_i))"
  by pat_completeness auto
termination
  by (relation "measure (\<lambda>(buf, pos, mx, max_digits, temp_digits, temp_i). mx - pos)") auto

definition read_digits ::
  "byte list \<Rightarrow> nat \<Rightarrow> nat \<Rightarrow> nat \<Rightarrow> nat \<Rightarrow> int \<Rightarrow> int \<Rightarrow> AvroErrorCode + (int \<times> nat \<times> nat)" where
  "read_digits buf pos mx min_digits max_digits min_value max_value =
     (case read_digits_loop buf pos mx max_digits 0 0 of (pos, temp_digits, temp_i) \<Rightarrow>
        if temp_digits < min_digits then Inl (if pos = mx then ERR_EOF else ERR_OVERFLOW)
        else if temp_i < min_value \<or> temp_i > max_value then Inl ERR_OVERFLOW
        else Inr (temp_i, temp_digits, pos))"

text \<open>
  \<open>read_double\<close> and \<open>read_float\<close> copy eight or four bytes in host order; the value is kept
  as its bytes.
\<close>

definition read_double :: "byte list \<Rightarrow> nat \<Rightarrow> nat \<Rightarrow> AvroErrorCode + (byte list \<times> nat)" where
  "read_double buf pos mx =
     (if pos + 8 > mx then Inl ERR_EOF else Inr (take 8 (drop pos buf), pos + 8))"

definition read_float :: "byte list \<Rightarrow> nat \<Rightarrow> nat \<Rightarrow> AvroErrorCode + (byte list \<times> nat)" where
  "read_float buf pos mx =
     (if pos + 4 > mx then Inl ERR_EOF else Inr (take 4 (drop pos buf), pos + 4))"

definition skip_char :: "byte list \<Rightarrow> nat \<Rightarrow> nat \<Rightarrow> byte \<Rightarrow> AvroErrorCode + nat" where
  "skip_char buf pos mx expected =
     (if pos \<ge> mx then Inl ERR_EOF
      else if buf ! pos \<noteq> expected then Inl ERR_OVERFLOW
      else Inr (pos + 1))"

function skip_whitespace_loop :: "byte list \<Rightarrow> nat \<Rightarrow> nat \<Rightarrow> nat" where
  "skip_whitespace_loop buf pos mx =
     (if pos < mx \<and> (buf ! pos = 0x20 \<or> buf ! pos = 9 \<or> buf ! pos = 10 \<or> buf ! pos = 11
                      \<or> buf ! pos = 12 \<or> buf ! pos = 13)
      then skip_whitespace_loop buf (pos + 1) mx
      else pos)"
  by pat_completeness auto
termination
  by (relation "measure (\<lambda>(buf, pos, mx). mx - pos)") auto

definition skip_whitespace :: "byte list \<Rightarrow> nat \<Rightarrow> nat \<Rightarrow> nat \<Rightarrow> AvroErrorCode + nat" where
  "skip_whitespace buf org mx min_chars =
     (let pos = skip_whitespace_loop buf org mx
      in if org + min_chars > pos then Inl (if pos = mx then ERR_EOF else ERR_OVERFLOW)
         else Inr pos)"

definition write_boolean ::
  "byte list \<Rightarrow> nat \<Rightarrow> nat \<Rightarrow> bool \<Rightarrow> AvroErrorCode + (byte list \<times> nat)" where
  "write_boolean buf pos mx b =
     (if pos \<ge> mx then Inl ERR_EOF
      else Inr (buf[pos := (if \<not> b then 0 else 1)], pos + 1))"

definition write_size ::
  "byte list \<Rightarrow> nat \<Rightarrow> nat \<Rightarrow> 64 word \<Rightarrow> AvroErrorCode + (byte list \<times> nat)" where
  "write_size buf pos mx l = write_long buf pos mx l"

definition write_int ::
  "byte list \<Rightarrow> nat \<Rightarrow> nat \<Rightarrow> 64 word \<Rightarrow> AvroErrorCode + (byte list \<times> nat)" where
  "write_int buf pos mx i = write_long buf pos mx i"

text \<open>\<open>write_bytes\<close> gets the bytes \<open>b\<close> and, separately, the count \<open>len\<close> to copy.\<close>

definition write_bytes ::
  "byte list \<Rightarrow> nat \<Rightarrow> nat \<Rightarrow> byte list \<Rightarrow> int \<Rightarrow> AvroErrorCode + (byte list \<times> nat)" where
  "write_bytes buf pos mx b len =
     AVRO_RETURN_ERROR (write_size buf pos mx (word_of_int len)) (\<lambda>(buf, pos).
       if int pos + len > int mx then Inl ERR_EOF
       else Inr (memcpy buf pos (take (nat len) b), nat (int pos + len)))"

definition write_char ::
  "byte list \<Rightarrow> nat \<Rightarrow> nat \<Rightarrow> byte \<Rightarrow> AvroErrorCode + (byte list \<times> nat)" where
  "write_char buf pos mx c =
     (if pos \<ge> mx then Inl ERR_EOF else Inr (buf[pos := c], pos + 1))"

text \<open>
  \<open>write_digits\<close>.  \<open>temp\<close> is a C \<open>int\<close>: \<open>/\<close> and \<open>%\<close> truncate towards zero (\<open>sdiv\<close>,
  \<open>smod\<close>).  The four loops of the source, in order: count digits while padding remains,
  count the remaining digits, store the digits from the right, store the padding.
\<close>

function write_digits_count1 :: "int \<Rightarrow> int \<Rightarrow> int \<Rightarrow> int \<times> int \<times> int" where
  "write_digits_count1 zeroes digits temp =
     (if zeroes > 0 \<and> temp \<noteq> 0
      then write_digits_count1 (zeroes - 1) (digits + 1) (temp sdiv 10)
      else (zeroes, digits, temp))"
  by pat_completeness auto
termination
  by (relation "measure (\<lambda>(zeroes, digits, temp). nat zeroes)") auto

function write_digits_count2 :: "int \<Rightarrow> int \<Rightarrow> int" where
  "write_digits_count2 digits temp =
     (if temp \<noteq> 0 then write_digits_count2 (digits + 1) (temp sdiv 10) else digits)"
  by pat_completeness auto
termination
proof (relation "measure (\<lambda>(digits, temp). nat \<bar>temp\<bar>)")
  show "wf (measure (\<lambda>(digits, temp). nat \<bar>temp\<bar>))" by simp
next
  fix digits temp :: int
  assume "temp \<noteq> 0"
  then have "\<bar>temp\<bar> div 10 < \<bar>temp\<bar>" by simp
  moreover have "\<bar>temp sdiv 10\<bar> = \<bar>temp\<bar> div 10"
    by (cases "temp = 0") (simp_all add: signed_divide_int_def abs_mult abs_sgn_eq)
  ultimately show "((digits + 1, temp sdiv 10), (digits, temp))
      \<in> measure (\<lambda>(digits, temp). nat \<bar>temp\<bar>)"
    by simp
qed

function write_digits_store :: "byte list \<Rightarrow> nat \<Rightarrow> int \<Rightarrow> byte list \<times> nat" where
  "write_digits_store buf digit_pos temp =
     (if temp \<noteq> 0
      then write_digits_store (buf[digit_pos := of_int (temp smod 10) + 0x30])
             (digit_pos - 1) (temp sdiv 10)
      else (buf, digit_pos))"
  by pat_completeness auto
termination
proof (relation "measure (\<lambda>(buf, digit_pos, temp). nat \<bar>temp\<bar>)")
  show "wf (measure (\<lambda>(buf, digit_pos, temp). nat \<bar>temp\<bar>))" by simp
next
  fix buf :: "byte list" and digit_pos :: nat and temp :: int
  assume "temp \<noteq> 0"
  then have "\<bar>temp\<bar> div 10 < \<bar>temp\<bar>" by simp
  moreover have "\<bar>temp sdiv 10\<bar> = \<bar>temp\<bar> div 10"
    by (cases "temp = 0") (simp_all add: signed_divide_int_def abs_mult abs_sgn_eq)
  ultimately show "((buf[digit_pos := of_int (temp smod 10) + 0x30], digit_pos - 1, temp sdiv 10),
       (buf, digit_pos, temp)) \<in> measure (\<lambda>(buf, digit_pos, temp). nat \<bar>temp\<bar>)"
    by simp
qed

function write_digits_pad :: "byte list \<Rightarrow> nat \<Rightarrow> int \<Rightarrow> byte list" where
  "write_digits_pad buf digit_pos zeroes =
     (if zeroes > 0 then write_digits_pad (buf[digit_pos := 0x30]) (digit_pos - 1) (zeroes - 1)
      else buf)"
  by pat_completeness auto
termination
  by (relation "measure (\<lambda>(buf, digit_pos, zeroes). nat zeroes)") auto

definition write_digits ::
  "byte list \<Rightarrow> nat \<Rightarrow> nat \<Rightarrow> int \<Rightarrow> int \<Rightarrow> AvroErrorCode + (byte list \<times> nat)" where
  "write_digits buf pos mx min_digits i =
     (case write_digits_count1 min_digits 0 i of (zeroes, digits, temp) \<Rightarrow>
        let digits = write_digits_count2 digits temp;
            digits = digits + zeroes
        in if int pos + digits \<ge> int mx then Inl ERR_EOF
           else
             let pos = nat (int pos + digits);
                 digit_pos = pos - 1
             in case write_digits_store buf digit_pos i of (buf, digit_pos) \<Rightarrow>
                  Inr (write_digits_pad buf digit_pos zeroes, pos))"

definition write_double ::
  "byte list \<Rightarrow> nat \<Rightarrow> nat \<Rightarrow> byte list \<Rightarrow> AvroErrorCode + (byte list \<times> nat)" where
  "write_double buf pos mx d =
     (if pos + 8 > mx then Inl ERR_EOF else Inr (memcpy buf pos (take 8 d), pos + 8))"

definition write_float ::
  "byte list \<Rightarrow> nat \<Rightarrow> nat \<Rightarrow> byte list \<Rightarrow> AvroErrorCode + (byte list \<times> nat)" where
  "write_float buf pos mx f =
     (if pos + 4 > mx then Inl ERR_EOF else Inr (memcpy buf pos (take 4 f), pos + 4))"

section \<open>Dates and times (dt.h, dt.c)\<close>

text \<open>
  The C \<open>int\<close> parameters are integers; \<open>/\<close> and \<open>%\<close> on them truncate towards zero.  A read
  outside a static table is undefined behaviour in C; the model reports it as a fault of its
  own instead of inventing a value.  The other faults are for the schema code: a \<open>NULL\<close>
  object pointer handed to an unchecked access macro, an object of another type handed to
  one, and a result returned while an exception is still set.
\<close>

datatype c_fault = OutOfBoundsRead | NullDereference | WrongObjectType | ResultWithExceptionSet

definition table_get :: "int list \<Rightarrow> int \<Rightarrow> c_fault + int" where
  "table_get tbl i = (if 0 \<le> i \<and> i < int (length tbl) then Inr (tbl ! nat i) else Inl OutOfBoundsRead)"

definition MIN_YEAR :: int where "MIN_YEAR = 1000"
definition MIN_EPOCH_MS :: int where "MIN_EPOCH_MS = -30610224000000"
definition MAX_YEAR :: int where "MAX_YEAR = 2900"
definition MAX_EPOCH_MS :: int where "MAX_EPOCH_MS = 29379542399999"

definition DATE_BASE_YEAR :: int where "DATE_BASE_YEAR = 1900"
definition DATE_DEFAULT :: "64 word" where "DATE_DEFAULT = - 1887301620"
definition DATE_SHIFT_YEAR :: nat where "DATE_SHIFT_YEAR = 32 - 11"
definition DATE_SHIFT_MONTH :: nat where "DATE_SHIFT_MONTH = DATE_SHIFT_YEAR - 4"
definition DATE_SHIFT_DAY :: nat where "DATE_SHIFT_DAY = DATE_SHIFT_MONTH - 5"
definition DATE_SHIFT_YDAY :: nat where "DATE_SHIFT_YDAY = DATE_SHIFT_DAY - 9"
definition DATE_SHIFT_WDAY :: nat where "DATE_SHIFT_WDAY = DATE_SHIFT_YDAY - 3"

text \<open>
  The masks are \<open>int32_t\<close> values; \<open>d & MASK\<close> on a \<open>long\<close> widens the mask with its sign, and
  \<open>>>\<close> on the signed result is an arithmetic shift.
\<close>

definition date_field :: "nat \<Rightarrow> nat \<Rightarrow> 64 word \<Rightarrow> 64 word" where
  "date_field bits shift d =
     signed_drop_bit shift (d AND scast (push_bit shift (2 ^ bits - 1) :: 32 word))"

definition DATE_YEAR :: "64 word \<Rightarrow> 64 word" where
  "DATE_YEAR d = date_field 11 DATE_SHIFT_YEAR d + word_of_int DATE_BASE_YEAR"
definition DATE_MONTH :: "64 word \<Rightarrow> 64 word" where
  "DATE_MONTH d = date_field 4 DATE_SHIFT_MONTH d"
definition DATE_DAY :: "64 word \<Rightarrow> 64 word" where
  "DATE_DAY d = date_field 5 DATE_SHIFT_DAY d"

definition TIME_SHIFT_HOUR :: nat where "TIME_SHIFT_HOUR = 31 - 5"
definition TIME_SHIFT_MINUTE :: nat where "TIME_SHIFT_MINUTE = TIME_SHIFT_HOUR - 6"
definition TIME_SHIFT_SEC :: nat where "TIME_SHIFT_SEC = TIME_SHIFT_MINUTE - 6"
definition TIME_SHIFT_MSEC :: nat where "TIME_SHIFT_MSEC = TIME_SHIFT_SEC - 10"

definition TIME_HOUR :: "64 word \<Rightarrow> 64 word" where
  "TIME_HOUR t = date_field 5 TIME_SHIFT_HOUR t"
definition TIME_MINUTE :: "64 word \<Rightarrow> 64 word" where
  "TIME_MINUTE t = date_field 6 TIME_SHIFT_MINUTE t"
definition TIME_SEC :: "64 word \<Rightarrow> 64 word" where
  "TIME_SEC t = date_field 6 TIME_SHIFT_SEC t"
definition TIME_MSEC :: "64 word \<Rightarrow> 64 word" where
  "TIME_MSEC t = date_field 10 TIME_SHIFT_MSEC t"

definition DT_BASE_YEAR :: int where "DT_BASE_YEAR = 1900"
definition DT_DEFAULT :: "64 word" where "DT_DEFAULT = - 8105898787127426688"
definition DT_SHIFT_YEAR :: nat where "DT_SHIFT_YEAR = 64 - 11"
definition DT_SHIFT_MONTH :: nat where "DT_SHIFT_MONTH = DT_SHIFT_YEAR - 4"
definition DT_SHIFT_DAY :: nat where "DT_SHIFT_DAY = DT_SHIFT_MONTH - 5"
definition DT_SHIFT_HOUR :: nat where "DT_SHIFT_HOUR = DT_SHIFT_DAY - 5"
definition DT_SHIFT_MINUTE :: nat where "DT_SHIFT_MINUTE = DT_SHIFT_HOUR - 6"
definition DT_SHIFT_SEC :: nat where "DT_SHIFT_SEC = DT_SHIFT_MINUTE - 6"
definition DT_SHIFT_MSEC :: nat where "DT_SHIFT_MSEC = DT_SHIFT_SEC - 10"
definition DT_SHIFT_YDAY :: nat where "DT_SHIFT_YDAY = DT_SHIFT_MSEC - 9"
definition DT_SHIFT_WDAY :: nat where "DT_SHIFT_WDAY = DT_SHIFT_YDAY - 3"

definition dt_field :: "nat \<Rightarrow> nat \<Rightarrow> 64 word \<Rightarrow> 64 word" where
  "dt_field bits shift dt = signed_drop_bit shift (dt AND push_bit shift (2 ^ bits - 1))"

definition DT_YEAR :: "64 word \<Rightarrow> 64 word" where
  "DT_YEAR dt = dt_field 11 DT_SHIFT_YEAR dt + word_of_int DT_BASE_YEAR"
definition DT_MONTH :: "64 word \<Rightarrow> 64 word" where
  "DT_MONTH dt = dt_field 4 DT_SHIFT_MONTH dt"
definition DT_DAY :: "64 word \<Rightarrow> 64 word" where
  "DT_DAY dt = dt_field 5 DT_SHIFT_DAY dt"
definition DT_HOUR :: "64 word \<Rightarrow> 64 word" where
  "DT_HOUR dt = dt_field 5 DT_SHIFT_HOUR dt"
definition DT_MINUTE :: "64 word \<Rightarrow> 64 word" where
  "DT_MINUTE dt = dt_field 6 DT_SHIFT_MINUTE dt"
definition DT_SEC :: "64 word \<Rightarrow> 64 word" where
  "DT_SEC dt = dt_field 6 DT_SHIFT_SEC dt"
definition DT_MSEC :: "64 word \<Rightarrow> 64 word" where
  "DT_MSEC dt = dt_field 10 DT_SHIFT_MSEC dt"

definition BASE_EPOCH_MS :: int where "BASE_EPOCH_MS = -62162035200000"
definition MSEC_PER_DAY :: int where "MSEC_PER_DAY = 86400000"
definition MSEC_PER_HOUR :: int where "MSEC_PER_HOUR = 3600000"
definition MSEC_PER_MINUTE :: int where "MSEC_PER_MINUTE = 60000"
definition MSEC_PER_SEC :: int where "MSEC_PER_SEC = 1000"
definition DAYS_PER_CYCLE :: int where "DAYS_PER_CYCLE = 146097"
definition DAYS_PER_CENTURY :: int where "DAYS_PER_CENTURY = 36524"
definition DAYS_PER_LEAP :: int where "DAYS_PER_LEAP = 1461"
definition DAYS_PER_YEAR :: int where "DAYS_PER_YEAR = 365"

definition datetime_to_epoch_ms :: "64 word \<Rightarrow> c_fault + 64 word" where
  "datetime_to_epoch_ms datetime =
     (let days_before_month = [0, 31, 61, 92, 122, 153, 184, 214, 245, 275, 306, 337];
          year = sint (scast (DT_YEAR datetime) :: 32 word);
          month = sint (scast (DT_MONTH datetime) :: 32 word) - 3;
          (month, year) = (if month < 0 then (month + 12, year - 1) else (month, year))
      in case table_get days_before_month month of
           Inl f \<Rightarrow> Inl f
         | Inr days_before \<Rightarrow>
             Inr (word_of_int
               (BASE_EPOCH_MS
                + (year * DAYS_PER_YEAR + year sdiv 4 - year sdiv 100 + year sdiv 400
                   + days_before + sint (DT_DAY datetime) - 1) * MSEC_PER_DAY
                + sint (DT_HOUR datetime) * MSEC_PER_HOUR
                + sint (DT_MINUTE datetime) * MSEC_PER_MINUTE
                + sint (DT_SEC datetime) * MSEC_PER_SEC
                + sint (DT_MSEC datetime))))"

text \<open>The \<open>for\<close> loop of \<open>epoch_ms_to_datetime\<close> that walks the month table from March.\<close>

function epoch_month_loop :: "int \<Rightarrow> int \<Rightarrow> c_fault + (int \<times> int)" where
  "epoch_month_loop month days =
     (case table_get [31, 30, 31, 30, 31, 31, 30, 31, 30, 31, 31, 29] month of
        Inl f \<Rightarrow> Inl f
      | Inr in_month \<Rightarrow>
          if in_month \<le> days then epoch_month_loop (month + 1) (days - in_month)
          else Inr (month, days))"
  by pat_completeness auto
termination
  by (relation "measure (\<lambda>(month, days). nat (12 - month))")
     (auto simp: table_get_def split: if_splits)

definition epoch_ms_to_datetime :: "64 word \<Rightarrow> c_fault + 64 word" where
  "epoch_ms_to_datetime epoch_ms =
     (let base_ms = sint epoch_ms - BASE_EPOCH_MS;
          days = base_ms sdiv MSEC_PER_DAY;
          milliseconds = base_ms smod MSEC_PER_DAY;
          day_of_week = (days + 3) smod 7;
          cycles_since_base = days sdiv DAYS_PER_CYCLE;
          days = days smod DAYS_PER_CYCLE;
          centuries_since_cycle = days sdiv DAYS_PER_CENTURY;
          centuries_since_cycle =
            (if centuries_since_cycle = 4 then centuries_since_cycle - 1
             else centuries_since_cycle);
          days = days - centuries_since_cycle * DAYS_PER_CENTURY;
          leaps_since_century = days sdiv DAYS_PER_LEAP;
          days = days - leaps_since_century * DAYS_PER_LEAP;
          years_since_leap = days sdiv DAYS_PER_YEAR;
          years_since_leap = (if years_since_leap = 4 then years_since_leap - 1 else years_since_leap);
          days = days - years_since_leap * DAYS_PER_YEAR;
          is_leap_year =
            (if years_since_leap = 0 \<and> (leaps_since_century \<noteq> 0 \<or> centuries_since_cycle = 0)
             then 1 else 0);
          day_of_year = days + 59 + is_leap_year;
          day_of_year =
            (if day_of_year \<ge> DAYS_PER_YEAR + is_leap_year
             then day_of_year - (DAYS_PER_YEAR + is_leap_year) else day_of_year);
          year = cycles_since_base * 400 + centuries_since_cycle * 100
                 + leaps_since_century * 4 + years_since_leap
      in case epoch_month_loop 0 days of
           Inl f \<Rightarrow> Inl f
         | Inr (month, days) \<Rightarrow>
             let month = month + 3;
                 (month, year) = (if month > 12 then (month - 12, year + 1) else (month, year))
             in Inr (push_bit DT_SHIFT_YEAR (word_of_int (year - DT_BASE_YEAR))
                     + push_bit DT_SHIFT_MONTH (word_of_int month)
                     + push_bit DT_SHIFT_DAY (word_of_int (days + 1))
                     + push_bit DT_SHIFT_HOUR (word_of_int (milliseconds sdiv MSEC_PER_HOUR))
                     + push_bit DT_SHIFT_MINUTE
                         (word_of_int (milliseconds sdiv MSEC_PER_MINUTE smod 60))
                     + push_bit DT_SHIFT_SEC
                         (word_of_int (milliseconds sdiv MSEC_PER_SEC smod 60))
                     + push_bit DT_SHIFT_MSEC (word_of_int (milliseconds smod MSEC_PER_SEC))
                     + push_bit DT_SHIFT_YDAY (word_of_int (day_of_year + 1))
                     + push_bit DT_SHIFT_WDAY (word_of_int (day_of_week + 1))))"

text \<open>
  \<open>compute_days\<close> returns 0 (\<open>Inr None\<close>) or 1 with the day of the year and the day of the
  week (\<open>Inr (Some \<dots>)\<close>).  The three tables are indexed with \<open>month - 1\<close> as the source does,
  without a range test.
\<close>

definition compute_days :: "int \<Rightarrow> int \<Rightarrow> int \<Rightarrow> c_fault + (int \<times> int) option" where
  "compute_days year month day =
     (let days_in_month = [31, 29, 31, 30, 31, 30, 31, 31, 30, 31, 30, 31];
          days_before_month = [0, 31, 60, 91, 121, 152, 182, 213, 244, 274, 305, 335];
          day_of_week_offset = [0, 3, 2, 5, 0, 3, 5, 1, 4, 6, 2, 4]
      in if year < MIN_YEAR \<or> year > MAX_YEAR then Inr None
         else
           let m = month - 1
           in case table_get days_in_month m of
                Inl f \<Rightarrow> Inl f
              | Inr in_month \<Rightarrow>
                  if day > in_month then Inr None
                  else
                    let not_leap_year =
                          (year smod 4 \<noteq> 0 \<or> (year smod 100 = 0 \<and> year smod 400 \<noteq> 0))
                    in if not_leap_year \<and> month = 2 \<and> day = 29 then Inr None
                       else
                         case table_get days_before_month m of
                           Inl f \<Rightarrow> Inl f
                         | Inr days_before \<Rightarrow>
                             let (day_of_year, y) =
                                   (if month < 3 then (days_before + day, year - 1)
                                    else (days_before - (if not_leap_year then 1 else 0) + day, year))
                             in case table_get day_of_week_offset m of
                                  Inl f \<Rightarrow> Inl f
                                | Inr offset \<Rightarrow>
                                    Inr (Some (day_of_year,
                                      (day + offset + y + y sdiv 4 - y sdiv 100 + y sdiv 400)
                                        smod 7 + 1)))"

text \<open>
  \<open>encode_date\<close> packs in \<open>int32_t\<close> arithmetic and widens to \<open>long\<close>; \<open>encode_datetime\<close> packs
  in \<open>int64_t\<close>.  \<open>Inr None\<close> is the return value 0, with \<open>*date\<close> left unwritten.
\<close>

definition encode_date :: "int \<Rightarrow> int \<Rightarrow> int \<Rightarrow> c_fault + 64 word option" where
  "encode_date year month day =
     (case compute_days year month day of
        Inl f \<Rightarrow> Inl f
      | Inr None \<Rightarrow> Inr None
      | Inr (Some (day_of_year, day_of_week)) \<Rightarrow>
          Inr (Some (scast
            (push_bit DATE_SHIFT_YEAR (word_of_int (year - DATE_BASE_YEAR))
             + push_bit DATE_SHIFT_MONTH (word_of_int month)
             + push_bit DATE_SHIFT_DAY (word_of_int day)
             + push_bit DATE_SHIFT_YDAY (word_of_int day_of_year)
             + push_bit DATE_SHIFT_WDAY (word_of_int day_of_week) :: 32 word))))"

definition encode_datetime ::
  "int \<Rightarrow> int \<Rightarrow> int \<Rightarrow> int \<Rightarrow> int \<Rightarrow> int \<Rightarrow> int \<Rightarrow> c_fault + 64 word option" where
  "encode_datetime year month day hour minute second millisecond =
     (case compute_days year month day of
        Inl f \<Rightarrow> Inl f
      | Inr None \<Rightarrow> Inr None
      | Inr (Some (day_of_year, day_of_week)) \<Rightarrow>
          Inr (Some
            (push_bit DT_SHIFT_YEAR (word_of_int (year - DT_BASE_YEAR))
             + push_bit DT_SHIFT_MONTH (word_of_int month)
             + push_bit DT_SHIFT_DAY (word_of_int day)
             + push_bit DT_SHIFT_HOUR (word_of_int hour)
             + push_bit DT_SHIFT_MINUTE (word_of_int minute)
             + push_bit DT_SHIFT_SEC (word_of_int second)
             + push_bit DT_SHIFT_MSEC (word_of_int millisecond)
             + push_bit DT_SHIFT_YDAY (word_of_int day_of_year)
             + push_bit DT_SHIFT_WDAY (word_of_int day_of_week))))"

definition encode_time :: "int \<Rightarrow> int \<Rightarrow> int \<Rightarrow> int \<Rightarrow> 64 word" where
  "encode_time hour minute second millisecond =
     scast (push_bit TIME_SHIFT_HOUR (word_of_int hour)
            + push_bit TIME_SHIFT_MINUTE (word_of_int minute)
            + push_bit TIME_SHIFT_SEC (word_of_int second)
            + push_bit TIME_SHIFT_MSEC (word_of_int millisecond) :: 32 word)"

section \<open>Records (record.h, record.c)\<close>

text \<open>
  Above the primitives an operation can end in three ways besides success: with an Avro
  error code, with a Python exception (type and message), or in undefined behaviour of the C
  program.  \<open>CHECK(handle_read_error(e), error)\<close> turns codes into exceptions.
  Memory allocation always succeeds in the model, so \<open>ERR_OOM\<close> is never produced.

  A fourth outcome, \<open>Limit\<close>, belongs to the model and not to the program: the recursion of
  the schema functions is bounded by a \<open>depth\<close>, as the C stack bounds it, and the block loops
  of the array readers are bounded by the number of bytes left, since every block consumes
  at least the byte of its count.
\<close>

datatype PyExc =
  PyExc_EOFError | PyExc_ValueError | PyExc_TypeError | PyExc_OverflowError | PyExc_MemoryError

datatype limit = StackDepth | BlockCount

datatype error = Avro AvroErrorCode | Fault c_fault | Exception PyExc string | Limit limit

definition bindE :: "error + 'a \<Rightarrow> ('a \<Rightarrow> error + 'b) \<Rightarrow> error + 'b" where
  "bindE s k = (case s of Inl e \<Rightarrow> Inl e | Inr x \<Rightarrow> k x)"

definition avro :: "AvroErrorCode + 'a \<Rightarrow> error + 'a" where
  "avro s = (case s of Inl e \<Rightarrow> Inl (Avro e) | Inr x \<Rightarrow> Inr x)"

definition fault :: "c_fault + 'a \<Rightarrow> error + 'a" where
  "fault s = (case s of Inl f \<Rightarrow> Inl (Fault f) | Inr x \<Rightarrow> Inr x)"

definition handle_read_error :: "error + 'a \<Rightarrow> error + 'a" where
  "handle_read_error s =
     (case s of
        Inl (Avro ERR_OOM) \<Rightarrow> Inl (Exception PyExc_MemoryError [])
      | Inl (Avro ERR_EOF) \<Rightarrow> Inl (Exception PyExc_EOFError ''incomplete binary data'')
      | Inl (Avro ERR_OVERFLOW) \<Rightarrow> Inl (Exception PyExc_ValueError ''invalid binary data'')
      | _ \<Rightarrow> s)"

definition handle_write_error :: "error + 'a \<Rightarrow> error + 'a" where
  "handle_write_error s =
     (case s of
        Inl (Avro ERR_OOM) \<Rightarrow> Inl (Exception PyExc_MemoryError [])
      | Inl (Avro ERR_EOF) \<Rightarrow> Inl (Exception PyExc_EOFError ''insufficient buffer size'')
      | Inl (Avro ERR_OVERFLOW) \<Rightarrow> Inl (Exception PyExc_ValueError ''invalid value'')
      | _ \<Rightarrow> s)"

datatype ColumnDataType =
    CDT_BYTES | CDT_CHAR1 | CDT_CHAR2 | CDT_CHAR4 | CDT_CHAR8 | CDT_CHAR16 | CDT_CHAR32
  | CDT_CHAR64 | CDT_CHAR128 | CDT_CHAR256 | CDT_DATE | CDT_DATETIME | CDT_DOUBLE | CDT_FLOAT
  | CDT_INT | CDT_INT8 | CDT_INT16 | CDT_LONG | CDT_STRING | CDT_TIME | CDT_TIMESTAMP

record ColumnDef =
  data_type :: ColumnDataType
  is_nullable :: bool

text \<open>
  \<open>ColumnValue\<close>.  The C union \<open>ColumnValueBase\<close> overlays the pointer \<open>data\<close> with the scalar
  members \<open>c\<close>, \<open>d\<close>, \<open>f\<close>, \<open>i\<close> and \<open>l\<close>.  A column only ever uses the member of its own data
  type, so the model keeps two views side by side: \<open>data\<close> is the buffer the pointer refers
  to (\<open>None\<close> for \<open>NULL\<close>), and \<open>raw\<close> is the eight bytes of the union read as \<open>i\<close> or \<open>l\<close>, with
  \<open>c\<close>, \<open>d\<close> and \<open>f\<close> as its bytes in host (little-endian) order.  Zero-filling the union sets
  \<open>data\<close> to \<open>None\<close> and \<open>raw\<close> to 0.
\<close>

record ColumnValue =
  data :: "byte list option"
  raw :: "64 word"
  len :: int

definition word_bytes :: "64 word \<Rightarrow> byte list" where
  "word_bytes w = map (\<lambda>k. ucast (drop_bit (8 * k) w)) [0..<8]"

definition bytes_word :: "byte list \<Rightarrow> 64 word" where
  "bytes_word bs = foldr (\<lambda>b w. ucast b OR push_bit 8 w) bs 0"

text \<open>Overwrite the first bytes of the union, as a \<open>memcpy\<close> into \<open>value.c\<close> does.\<close>

definition store_bytes :: "64 word \<Rightarrow> byte list \<Rightarrow> 64 word" where
  "store_bytes w bs = bytes_word (bs @ drop (length bs) (word_bytes w))"

text \<open>
  \<open>RecordType\<close> and \<open>Record\<close>.  Of the record type the codec uses the column definitions;
  \<open>type_id\<close> stands for the address of the object, which is how the code compares record
  types.  The Python-level members (label, column objects, name index, the list \<open>values\<close> of
  cached Python objects) and all reference counting are host-runtime bookkeeping and are
  left out; the flag \<open>from_python\<close> of the clear functions only selects that bookkeeping.
  \<open>Py_SIZE(record)\<close> is the number of cells.
\<close>

record RecordType =
  type_id :: nat
  column_defs :: "ColumnDef list"

record Record =
  rtype :: RecordType
  size_cached :: int
  column_values :: "ColumnValue list"

definition Py_SIZE :: "Record \<Rightarrow> nat" where
  "Py_SIZE record = length (column_values record)"

subsection \<open>Construction\<close>

text \<open>
  \<open>tp_alloc(type, column_count)\<close> is CPython's allocator, which hands out zero-filled
  memory; \<open>Record_new\<close> then sets the type and runs its loop over the cells.
\<close>

definition tp_alloc :: "nat \<Rightarrow> Record" where
  "tp_alloc column_count =
     \<lparr>rtype = \<lparr>type_id = 0, column_defs = []\<rparr>, size_cached = 0,
      column_values = replicate column_count \<lparr>data = None, raw = 0, len = 0\<rparr>\<rparr>"

fun Record_new_loop :: "Record \<Rightarrow> nat list \<Rightarrow> Record" where
  "Record_new_loop self [] = self"
| "Record_new_loop self (i # rest) =
     Record_new_loop
       (self\<lparr>column_values := (column_values self)
          [i := (column_values self ! i)
             \<lparr>len := - (if is_nullable (column_defs (rtype self) ! i) then 1 else 0)\<rparr>]\<rparr>)
       rest"

definition Record_new :: "RecordType \<Rightarrow> Record" where
  "Record_new arg_type =
     (let column_count = length (column_defs arg_type);
          self = tp_alloc column_count;
          self = self\<lparr>rtype := arg_type\<rparr>
      in Record_new_loop self [0..<column_count])"

subsection \<open>Clearing\<close>

definition clear_bytes_column :: "Record \<Rightarrow> nat \<Rightarrow> bool \<Rightarrow> Record" where
  "clear_bytes_column self index from_python =
     self\<lparr>column_values := (column_values self)
       [index := \<lparr>data = None, raw = 0,
                  len = - (if is_nullable (column_defs (rtype self) ! index) then 1 else 0)\<rparr>]\<rparr>"

definition clear_simple_column :: "Record \<Rightarrow> nat \<Rightarrow> bool \<Rightarrow> Record" where
  "clear_simple_column self index from_python =
     self\<lparr>column_values := (column_values self)
       [index := \<lparr>data = None, raw = 0,
                  len = - (if is_nullable (column_defs (rtype self) ! index) then 1 else 0)\<rparr>]\<rparr>"

definition clear_string_column :: "Record \<Rightarrow> nat \<Rightarrow> bool \<Rightarrow> Record" where
  "clear_string_column self index from_python = clear_bytes_column self index from_python"

fun clear_column :: "ColumnDataType \<Rightarrow> Record \<Rightarrow> nat \<Rightarrow> bool \<Rightarrow> Record" where
  "clear_column CDT_BYTES = clear_bytes_column"
| "clear_column CDT_CHAR1 = clear_simple_column"
| "clear_column CDT_CHAR2 = clear_simple_column"
| "clear_column CDT_CHAR4 = clear_simple_column"
| "clear_column CDT_CHAR8 = clear_simple_column"
| "clear_column CDT_CHAR16 = clear_string_column"
| "clear_column CDT_CHAR32 = clear_string_column"
| "clear_column CDT_CHAR64 = clear_string_column"
| "clear_column CDT_CHAR128 = clear_string_column"
| "clear_column CDT_CHAR256 = clear_string_column"
| "clear_column CDT_DATE = clear_simple_column"
| "clear_column CDT_DATETIME = clear_simple_column"
| "clear_column CDT_DOUBLE = clear_simple_column"
| "clear_column CDT_FLOAT = clear_simple_column"
| "clear_column CDT_INT = clear_simple_column"
| "clear_column CDT_INT8 = clear_simple_column"
| "clear_column CDT_INT16 = clear_simple_column"
| "clear_column CDT_LONG = clear_simple_column"
| "clear_column CDT_STRING = clear_string_column"
| "clear_column CDT_TIME = clear_simple_column"
| "clear_column CDT_TIMESTAMP = clear_simple_column"

subsection \<open>Reading a column\<close>

text \<open>
  A reading function gets the window and the cell and returns the filled cell and the
  cursor; on an error the cell is as it was.
\<close>

definition read_bytes_column ::
  "byte list \<Rightarrow> nat \<Rightarrow> nat \<Rightarrow> ColumnValue \<Rightarrow> error + (ColumnValue \<times> nat)" where
  "read_bytes_column buf pos mx column_value =
     bindE (avro (read_bytes_len buf pos mx)) (\<lambda>(len, pos).
       case read_bytes_data buf pos len of (bs, pos) \<Rightarrow>
         Inr (column_value\<lparr>data := Some bs, len := int len\<rparr>, pos))"

definition read_char_column_small ::
  "byte list \<Rightarrow> nat \<Rightarrow> nat \<Rightarrow> ColumnValue \<Rightarrow> nat \<Rightarrow> error + (ColumnValue \<times> nat)" where
  "read_char_column_small buf pos mx column_value sz =
     bindE (avro (read_bytes_len buf pos mx)) (\<lambda>(len, pos).
       if len > sz then Inl (Avro ERR_OVERFLOW)
       else case read_bytes_data buf pos len of (bs, pos) \<Rightarrow>
         Inr (column_value\<lparr>raw := store_bytes (raw column_value) bs, len := int len\<rparr>, pos))"

definition read_char_column_large ::
  "byte list \<Rightarrow> nat \<Rightarrow> nat \<Rightarrow> ColumnValue \<Rightarrow> nat \<Rightarrow> error + (ColumnValue \<times> nat)" where
  "read_char_column_large buf pos mx column_value sz =
     bindE (avro (read_bytes_len buf pos mx)) (\<lambda>(len, pos).
       if len > sz then Inl (Avro ERR_OVERFLOW)
       else case read_bytes_data buf pos len of (bs, pos) \<Rightarrow>
         Inr (column_value\<lparr>data := Some bs, len := int len\<rparr>, pos))"

text \<open>
  The date, time and datetime readers narrow the window to the string value.  Where the
  source calls \<open>skip_whitespace(pos, max, 0)\<close> and ignores the result, only the moved cursor
  matters.
\<close>

definition read_ymd :: "byte list \<Rightarrow> nat \<Rightarrow> nat \<Rightarrow> error + ((int \<times> int \<times> int) \<times> nat)" where
  "read_ymd buf pos mx =
     bindE (avro (read_digits buf pos mx 4 4 1000 2900)) (\<lambda>(year, digits, pos).
     bindE (avro (skip_char buf pos mx 0x2D)) (\<lambda>pos.
     bindE (avro (read_digits buf pos mx 2 2 1 12)) (\<lambda>(month, digits, pos).
     bindE (avro (skip_char buf pos mx 0x2D)) (\<lambda>pos.
     bindE (avro (read_digits buf pos mx 2 2 1 31)) (\<lambda>(day, digits, pos).
       Inr ((year, month, day), pos))))))"

definition read_date_column ::
  "byte list \<Rightarrow> nat \<Rightarrow> nat \<Rightarrow> ColumnValue \<Rightarrow> error + (ColumnValue \<times> nat)" where
  "read_date_column buf pos mx column_value =
     bindE (avro (read_bytes_len buf pos mx)) (\<lambda>(len, pos).
       let mx = pos + len;
           pos = skip_whitespace_loop buf pos mx
       in bindE (read_ymd buf pos mx) (\<lambda>((year, month, day), pos).
            let pos = skip_whitespace_loop buf pos mx
            in if pos \<noteq> mx then Inl (Avro ERR_OVERFLOW)
               else bindE (fault (encode_date year month day)) (\<lambda>encoded.
                 case encoded of
                   None \<Rightarrow> Inl (Avro ERR_OVERFLOW)
                 | Some date \<Rightarrow> Inr (column_value\<lparr>raw := date, len := 0\<rparr>, pos))))"

definition read_hms :: "byte list \<Rightarrow> nat \<Rightarrow> nat \<Rightarrow> error + ((int \<times> int \<times> int) \<times> nat)" where
  "read_hms buf pos mx =
     bindE (avro (read_digits buf pos mx 1 2 0 23)) (\<lambda>(hour, digits, pos).
     bindE (avro (skip_char buf pos mx 0x3A)) (\<lambda>pos.
     bindE (avro (read_digits buf pos mx 2 2 0 59)) (\<lambda>(minute, digits, pos).
     bindE (avro (skip_char buf pos mx 0x3A)) (\<lambda>pos.
     bindE (avro (read_digits buf pos mx 2 2 0 59)) (\<lambda>(second, digits, pos).
       Inr ((hour, minute, second), pos))))))"

definition read_datetime_column ::
  "byte list \<Rightarrow> nat \<Rightarrow> nat \<Rightarrow> ColumnValue \<Rightarrow> error + (ColumnValue \<times> nat)" where
  "read_datetime_column buf pos mx column_value =
     bindE (avro (read_bytes_len buf pos mx)) (\<lambda>(len, pos).
       let mx = pos + len;
           pos = skip_whitespace_loop buf pos mx
       in bindE (read_ymd buf pos mx) (\<lambda>((year, month, day), pos).
          bindE (if pos < mx then avro (skip_whitespace buf pos mx 1) else Inr pos) (\<lambda>pos.
            if pos = mx
            then bindE (fault (encode_datetime year month day 0 0 0 0)) (\<lambda>encoded.
                   case encoded of
                     None \<Rightarrow> Inl (Avro ERR_OVERFLOW)
                   | Some datetime \<Rightarrow> Inr (column_value\<lparr>raw := datetime, len := 0\<rparr>, pos))
            else
              bindE (read_hms buf pos mx) (\<lambda>((hour, minute, second), pos).
              bindE (if pos < mx \<and> buf ! pos = 0x2E
                     then bindE (avro (read_digits buf (pos + 1) mx 1 6 0 999999))
                            (\<lambda>(millisecond, digits, pos).
                               Inr (if digits < 3
                                    then (if digits = 2 then millisecond * 10
                                          else millisecond * 100)
                                    else if digits > 3
                                    then (if digits = 4 then millisecond sdiv 10
                                          else if digits = 5 then millisecond sdiv 100
                                          else millisecond sdiv 1000)
                                    else millisecond, pos))
                     else Inr (0, pos)) (\<lambda>(millisecond, pos).
                let pos = skip_whitespace_loop buf pos mx
                in if pos \<noteq> mx then Inl (Avro ERR_OVERFLOW)
                   else bindE (fault (encode_datetime year month day hour minute second
                                        millisecond)) (\<lambda>encoded.
                     case encoded of
                       None \<Rightarrow> Inl (Avro ERR_OVERFLOW)
                     | Some datetime \<Rightarrow>
                         Inr (column_value\<lparr>raw := datetime, len := 0\<rparr>, pos)))))))"

definition read_double_column ::
  "byte list \<Rightarrow> nat \<Rightarrow> nat \<Rightarrow> ColumnValue \<Rightarrow> error + (ColumnValue \<times> nat)" where
  "read_double_column buf pos mx column_value =
     bindE (avro (read_double buf pos mx)) (\<lambda>(d, pos).
       Inr (column_value\<lparr>raw := store_bytes (raw column_value) d, len := 0\<rparr>, pos))"

definition read_float_column ::
  "byte list \<Rightarrow> nat \<Rightarrow> nat \<Rightarrow> ColumnValue \<Rightarrow> error + (ColumnValue \<times> nat)" where
  "read_float_column buf pos mx column_value =
     bindE (avro (read_float buf pos mx)) (\<lambda>(f, pos).
       Inr (column_value\<lparr>raw := store_bytes (raw column_value) f, len := 0\<rparr>, pos))"

definition read_int_column ::
  "byte list \<Rightarrow> nat \<Rightarrow> nat \<Rightarrow> ColumnValue \<Rightarrow> error + (ColumnValue \<times> nat)" where
  "read_int_column buf pos mx column_value =
     bindE (avro (read_int buf pos mx)) (\<lambda>(i, pos).
       Inr (column_value\<lparr>raw := i, len := 0\<rparr>, pos))"

definition read_int_column_small ::
  "byte list \<Rightarrow> nat \<Rightarrow> nat \<Rightarrow> ColumnValue \<Rightarrow> int \<Rightarrow> int \<Rightarrow> error + (ColumnValue \<times> nat)" where
  "read_int_column_small buf pos mx column_value min_value max_value =
     bindE (avro (read_int buf pos mx)) (\<lambda>(v, pos).
       if sint v < min_value \<or> sint v > max_value then Inl (Avro ERR_OVERFLOW)
       else Inr (column_value\<lparr>raw := v, len := 0\<rparr>, pos))"

definition read_long_column ::
  "byte list \<Rightarrow> nat \<Rightarrow> nat \<Rightarrow> ColumnValue \<Rightarrow> error + (ColumnValue \<times> nat)" where
  "read_long_column buf pos mx column_value =
     bindE (avro (read_long buf pos mx)) (\<lambda>(l, pos).
       Inr (column_value\<lparr>raw := l, len := 0\<rparr>, pos))"

definition read_time_column ::
  "byte list \<Rightarrow> nat \<Rightarrow> nat \<Rightarrow> ColumnValue \<Rightarrow> error + (ColumnValue \<times> nat)" where
  "read_time_column buf pos mx column_value =
     bindE (avro (read_bytes_len buf pos mx)) (\<lambda>(len, pos).
       let mx = pos + len;
           pos = skip_whitespace_loop buf pos mx
       in bindE (read_hms buf pos mx) (\<lambda>((hour, minute, second), pos).
          bindE (if pos < mx \<and> buf ! pos = 0x2E
                 then bindE (avro (read_digits buf (pos + 1) mx 1 3 0 999999))
                        (\<lambda>(millisecond, digits, pos).
                           Inr (if digits < 3
                                then (if digits = 2 then millisecond * 10
                                      else millisecond * 100)
                                else millisecond, pos))
                 else Inr (0, pos)) (\<lambda>(millisecond, pos).
            let pos = skip_whitespace_loop buf pos mx
            in if pos \<noteq> mx then Inl (Avro ERR_OVERFLOW)
               else Inr (column_value\<lparr>raw := encode_time hour minute second millisecond,
                                      len := 0\<rparr>, pos))))"

definition read_timestamp_column ::
  "byte list \<Rightarrow> nat \<Rightarrow> nat \<Rightarrow> ColumnValue \<Rightarrow> error + (ColumnValue \<times> nat)" where
  "read_timestamp_column buf pos mx column_value =
     bindE (avro (read_long buf pos mx)) (\<lambda>(v, pos).
       if sint v < MIN_EPOCH_MS \<or> sint v > MAX_EPOCH_MS then Inl (Avro ERR_OVERFLOW)
       else bindE (fault (epoch_ms_to_datetime v)) (\<lambda>datetime.
              Inr (column_value\<lparr>raw := datetime, len := 0\<rparr>, pos)))"

fun read_column ::
  "ColumnDataType \<Rightarrow> byte list \<Rightarrow> nat \<Rightarrow> nat \<Rightarrow> ColumnValue \<Rightarrow> error + (ColumnValue \<times> nat)" where
  "read_column CDT_BYTES buf pos mx cv = read_bytes_column buf pos mx cv"
| "read_column CDT_CHAR1 buf pos mx cv = read_char_column_small buf pos mx cv 1"
| "read_column CDT_CHAR2 buf pos mx cv = read_char_column_small buf pos mx cv 2"
| "read_column CDT_CHAR4 buf pos mx cv = read_char_column_small buf pos mx cv 4"
| "read_column CDT_CHAR8 buf pos mx cv = read_char_column_small buf pos mx cv 8"
| "read_column CDT_CHAR16 buf pos mx cv = read_char_column_large buf pos mx cv 16"
| "read_column CDT_CHAR32 buf pos mx cv = read_char_column_large buf pos mx cv 32"
| "read_column CDT_CHAR64 buf pos mx cv = read_char_column_large buf pos mx cv 64"
| "read_column CDT_CHAR128 buf pos mx cv = read_char_column_large buf pos mx cv 128"
| "read_column CDT_CHAR256 buf pos mx cv = read_char_column_large buf pos mx cv 256"
| "read_column CDT_DATE buf pos mx cv = read_date_column buf pos mx cv"
| "read_column CDT_DATETIME buf pos mx cv = read_datetime_column buf pos mx cv"
| "read_column CDT_DOUBLE buf pos mx cv = read_double_column buf pos mx cv"
| "read_column CDT_FLOAT buf pos mx cv = read_float_column buf pos mx cv"
| "read_column CDT_INT buf pos mx cv = read_int_column buf pos mx cv"
| "read_column CDT_INT8 buf pos mx cv = read_int_column_small buf pos mx cv (- 128) 127"
| "read_column CDT_INT16 buf pos mx cv = read_int_column_small buf pos mx cv (- 32768) 32767"
| "read_column CDT_LONG buf pos mx cv = read_long_column buf pos mx cv"
| "read_column CDT_STRING buf pos mx cv = read_bytes_column buf pos mx cv"
| "read_column CDT_TIME buf pos mx cv = read_time_column buf pos mx cv"
| "read_column CDT_TIMESTAMP buf pos mx cv = read_timestamp_column buf pos mx cv"

subsection \<open>Reading a record\<close>

text \<open>The body of the \<open>for\<close> loop of \<open>read_record\<close> for one column.\<close>

definition read_record_column ::
  "byte list \<Rightarrow> nat \<Rightarrow> nat \<Rightarrow> ColumnDef \<Rightarrow> ColumnValue \<Rightarrow> error + (ColumnValue \<times> nat)" where
  "read_record_column buf pos mx column_def column_value =
     (if is_nullable column_def
      then bindE (avro (read_long buf pos mx)) (\<lambda>(is_null, pos).
             if is_null = 1 then Inr (column_value\<lparr>len := - 1\<rparr>, pos)
             else if is_null \<noteq> 0 then Inl (Avro ERR_OVERFLOW)
             else read_column (data_type column_def) buf pos mx column_value)
      else read_column (data_type column_def) buf pos mx column_value)"

text \<open>
  The loop returns the record, the index \<open>i\<close> at which it stopped, and the cursor or the
  error that sent it to the label \<open>error\<close>.
\<close>

function read_record_loop ::
  "byte list \<Rightarrow> nat \<Rightarrow> nat \<Rightarrow> Record \<Rightarrow> nat \<Rightarrow> Record \<times> nat \<times> (error + nat)" where
  "read_record_loop buf pos mx record i =
     (if i < Py_SIZE record
      then case read_record_column buf pos mx (column_defs (rtype record) ! i)
                  (column_values record ! i) of
             Inl e \<Rightarrow> (record, i, Inl e)
           | Inr (column_value, pos) \<Rightarrow>
               read_record_loop buf pos mx
                 (record\<lparr>column_values := (column_values record)[i := column_value]\<rparr>) (i + 1)
      else (record, i, Inr pos))"
  by pat_completeness auto
termination
  by (relation "measure (\<lambda>(buf, pos, mx, record, i). Py_SIZE record - i)")
     (auto simp: Py_SIZE_def)

text \<open>The loop at the label \<open>error\<close>: \<open>for (; i > 0; --i) clear_column[\<dots>[i].data_type](record, i, 0)\<close>.\<close>

function read_record_error :: "Record \<Rightarrow> nat \<Rightarrow> Record" where
  "read_record_error record i =
     (if i > 0
      then read_record_error
             (clear_column (data_type (column_defs (rtype record) ! i)) record i False) (i - 1)
      else record)"
  by pat_completeness auto
termination
  by (relation "measure (\<lambda>(record, i). i)") auto

definition read_record :: "byte list \<Rightarrow> nat \<Rightarrow> nat \<Rightarrow> Record \<Rightarrow> Record \<times> (error + nat)" where
  "read_record buf pos mx record =
     (case read_record_loop buf pos mx (record\<lparr>size_cached := 0\<rparr>) 0 of
        (record, i, Inr pos) \<Rightarrow> (record, Inr pos)
      | (record, i, Inl e) \<Rightarrow> (read_record_error record i, Inl e))"

subsection \<open>Sizes\<close>

definition size_bytes_column :: "ColumnValue \<Rightarrow> error + int" where
  "size_bytes_column column_value =
     Inr (int (size_long (word_of_int (len column_value))) + len column_value)"

definition size_timestamp_column :: "ColumnValue \<Rightarrow> error + int" where
  "size_timestamp_column column_value =
     bindE (fault (datetime_to_epoch_ms (raw column_value))) (\<lambda>ms. Inr (int (size_long ms)))"

fun size_column :: "ColumnDataType \<Rightarrow> ColumnValue \<Rightarrow> error + int" where
  "size_column CDT_DATE cv = Inr 11"
| "size_column CDT_DATETIME cv = Inr 24"
| "size_column CDT_DOUBLE cv = Inr 8"
| "size_column CDT_FLOAT cv = Inr 4"
| "size_column CDT_INT cv = Inr (int (size_long (raw cv)))"
| "size_column CDT_INT8 cv = Inr (int (size_long (raw cv)))"
| "size_column CDT_INT16 cv = Inr (int (size_long (raw cv)))"
| "size_column CDT_LONG cv = Inr (int (size_long (raw cv)))"
| "size_column CDT_TIME cv = Inr 13"
| "size_column CDT_TIMESTAMP cv = size_timestamp_column cv"
| "size_column _ cv = size_bytes_column cv"

function size_record_loop :: "Record \<Rightarrow> nat \<Rightarrow> int \<Rightarrow> error + int" where
  "size_record_loop record i sz =
     (if i < Py_SIZE record
      then
        let column_def = column_defs (rtype record) ! i;
            column_value = column_values record ! i;
            sz = (if is_nullable column_def then sz + 1 else sz)
        in if is_nullable column_def \<and> len column_value < 0
           then size_record_loop record (i + 1) sz
           else bindE (size_column (data_type column_def) column_value) (\<lambda>n.
                  size_record_loop record (i + 1) (sz + n))
      else Inr sz)"
  by pat_completeness auto
termination
  by (relation "measure (\<lambda>(record, i, sz). Py_SIZE record - i)") auto

text \<open>\<open>size_record\<close> returns the cached size when it is not 0, and caches what it computes.\<close>

definition size_record :: "Record \<Rightarrow> Record \<times> (error + int)" where
  "size_record record =
     (if size_cached record \<noteq> 0 then (record, Inr (size_cached record))
      else case size_record_loop record 0 0 of
             Inl e \<Rightarrow> (record, Inl e)
           | Inr sz \<Rightarrow> (record\<lparr>size_cached := sz\<rparr>, Inr sz))"

subsection \<open>Writing\<close>

text \<open>A C \<open>long\<close> passed for an \<open>int\<close> parameter is cut to 32 bits.\<close>

definition long_to_int :: "64 word \<Rightarrow> int" where
  "long_to_int v = sint (ucast v :: 32 word)"

definition cell_data :: "ColumnValue \<Rightarrow> byte list" where
  "cell_data column_value = (case data column_value of None \<Rightarrow> [] | Some bs \<Rightarrow> bs)"

definition write_bytes_column ::
  "byte list \<Rightarrow> nat \<Rightarrow> nat \<Rightarrow> ColumnValue \<Rightarrow> error + (byte list \<times> nat)" where
  "write_bytes_column buf pos mx column_value =
     avro (write_bytes buf pos mx (cell_data column_value) (len column_value))"

definition write_char_column_small ::
  "byte list \<Rightarrow> nat \<Rightarrow> nat \<Rightarrow> ColumnValue \<Rightarrow> error + (byte list \<times> nat)" where
  "write_char_column_small buf pos mx column_value =
     avro (write_bytes buf pos mx (word_bytes (raw column_value)) (len column_value))"

definition write_date_column ::
  "byte list \<Rightarrow> nat \<Rightarrow> nat \<Rightarrow> ColumnValue \<Rightarrow> error + (byte list \<times> nat)" where
  "write_date_column buf pos mx column_value =
     (let date = raw column_value;
          date = (if date = 0 then DATE_DEFAULT else date)
      in avro (
        AVRO_RETURN_ERROR (write_size buf pos mx 10) (\<lambda>(buf, pos).
        AVRO_RETURN_ERROR (write_digits buf pos mx 4 (long_to_int (DATE_YEAR date))) (\<lambda>(buf, pos).
        AVRO_RETURN_ERROR (write_char buf pos mx 0x2D) (\<lambda>(buf, pos).
        AVRO_RETURN_ERROR (write_digits buf pos mx 2 (long_to_int (DATE_MONTH date))) (\<lambda>(buf, pos).
        AVRO_RETURN_ERROR (write_char buf pos mx 0x2D) (\<lambda>(buf, pos).
        write_digits buf pos mx 2 (long_to_int (DATE_DAY date)))))))))"

definition write_datetime_column ::
  "byte list \<Rightarrow> nat \<Rightarrow> nat \<Rightarrow> ColumnValue \<Rightarrow> error + (byte list \<times> nat)" where
  "write_datetime_column buf pos mx column_value =
     (let datetime = raw column_value;
          datetime = (if datetime = 0 then DT_DEFAULT else datetime)
      in avro (
        AVRO_RETURN_ERROR (write_size buf pos mx 23) (\<lambda>(buf, pos).
        AVRO_RETURN_ERROR (write_digits buf pos mx 4 (long_to_int (DT_YEAR datetime))) (\<lambda>(buf, pos).
        AVRO_RETURN_ERROR (write_char buf pos mx 0x2D) (\<lambda>(buf, pos).
        AVRO_RETURN_ERROR (write_digits buf pos mx 2 (long_to_int (DT_MONTH datetime))) (\<lambda>(buf, pos).
        AVRO_RETURN_ERROR (write_char buf pos mx 0x2D) (\<lambda>(buf, pos).
        AVRO_RETURN_ERROR (write_digits buf pos mx 2 (long_to_int (DT_DAY datetime))) (\<lambda>(buf, pos).
        AVRO_RETURN_ERROR (write_char buf pos mx 0x20) (\<lambda>(buf, pos).
        AVRO_RETURN_ERROR (write_digits buf pos mx 2 (long_to_int (DT_HOUR datetime))) (\<lambda>(buf, pos).
        AVRO_RETURN_ERROR (write_char buf pos mx 0x3A) (\<lambda>(buf, pos).
        AVRO_RETURN_ERROR (write_digits buf pos mx 2 (long_to_int (DT_MINUTE datetime))) (\<lambda>(buf, pos).
        AVRO_RETURN_ERROR (write_char buf pos mx 0x3A) (\<lambda>(buf, pos).
        AVRO_RETURN_ERROR (write_digits buf pos mx 2 (long_to_int (DT_SEC datetime))) (\<lambda>(buf, pos).
        AVRO_RETURN_ERROR (write_char buf pos mx 0x2E) (\<lambda>(buf, pos).
        write_digits buf pos mx 3 (long_to_int (DT_MSEC datetime)))))))))))))))))"

definition write_double_column ::
  "byte list \<Rightarrow> nat \<Rightarrow> nat \<Rightarrow> ColumnValue \<Rightarrow> error + (byte list \<times> nat)" where
  "write_double_column buf pos mx column_value =
     avro (write_double buf pos mx (word_bytes (raw column_value)))"

definition write_float_column ::
  "byte list \<Rightarrow> nat \<Rightarrow> nat \<Rightarrow> ColumnValue \<Rightarrow> error + (byte list \<times> nat)" where
  "write_float_column buf pos mx column_value =
     avro (write_float buf pos mx (word_bytes (raw column_value)))"

definition write_int_column ::
  "byte list \<Rightarrow> nat \<Rightarrow> nat \<Rightarrow> ColumnValue \<Rightarrow> error + (byte list \<times> nat)" where
  "write_int_column buf pos mx column_value = avro (write_int buf pos mx (raw column_value))"

definition write_long_column ::
  "byte list \<Rightarrow> nat \<Rightarrow> nat \<Rightarrow> ColumnValue \<Rightarrow> error + (byte list \<times> nat)" where
  "write_long_column buf pos mx column_value = avro (write_long buf pos mx (raw column_value))"

definition write_time_column ::
  "byte list \<Rightarrow> nat \<Rightarrow> nat \<Rightarrow> ColumnValue \<Rightarrow> error + (byte list \<times> nat)" where
  "write_time_column buf pos mx column_value =
     (let time = raw column_value
      in avro (
        AVRO_RETURN_ERROR (write_size buf pos mx 12) (\<lambda>(buf, pos).
        AVRO_RETURN_ERROR (write_digits buf pos mx 2 (long_to_int (TIME_HOUR time))) (\<lambda>(buf, pos).
        AVRO_RETURN_ERROR (write_char buf pos mx 0x3A) (\<lambda>(buf, pos).
        AVRO_RETURN_ERROR (write_digits buf pos mx 2 (long_to_int (TIME_MINUTE time))) (\<lambda>(buf, pos).
        AVRO_RETURN_ERROR (write_char buf pos mx 0x3A) (\<lambda>(buf, pos).
        AVRO_RETURN_ERROR (write_digits buf pos mx 2 (long_to_int (TIME_SEC time))) (\<lambda>(buf, pos).
        AVRO_RETURN_ERROR (write_char buf pos mx 0x2E) (\<lambda>(buf, pos).
        write_digits buf pos mx 3 (long_to_int (TIME_MSEC time)))))))))))"

definition write_timestamp_column ::
  "byte list \<Rightarrow> nat \<Rightarrow> nat \<Rightarrow> ColumnValue \<Rightarrow> error + (byte list \<times> nat)" where
  "write_timestamp_column buf pos mx column_value =
     (let datetime = raw column_value;
          datetime = (if datetime = 0 then DT_DEFAULT else datetime)
      in bindE (fault (datetime_to_epoch_ms datetime)) (\<lambda>ms. avro (write_long buf pos mx ms)))"

fun write_column ::
  "ColumnDataType \<Rightarrow> byte list \<Rightarrow> nat \<Rightarrow> nat \<Rightarrow> ColumnValue \<Rightarrow> error + (byte list \<times> nat)" where
  "write_column CDT_BYTES = write_bytes_column"
| "write_column CDT_CHAR1 = write_char_column_small"
| "write_column CDT_CHAR2 = write_char_column_small"
| "write_column CDT_CHAR4 = write_char_column_small"
| "write_column CDT_CHAR8 = write_char_column_small"
| "write_column CDT_CHAR16 = write_bytes_column"
| "write_column CDT_CHAR32 = write_bytes_column"
| "write_column CDT_CHAR64 = write_bytes_column"
| "write_column CDT_CHAR128 = write_bytes_column"
| "write_column CDT_CHAR256 = write_bytes_column"
| "write_column CDT_DATE = write_date_column"
| "write_column CDT_DATETIME = write_datetime_column"
| "write_column CDT_DOUBLE = write_double_column"
| "write_column CDT_FLOAT = write_float_column"
| "write_column CDT_INT = write_int_column"
| "write_column CDT_INT8 = write_int_column"
| "write_column CDT_INT16 = write_int_column"
| "write_column CDT_LONG = write_long_column"
| "write_column CDT_STRING = write_bytes_column"
| "write_column CDT_TIME = write_time_column"
| "write_column CDT_TIMESTAMP = write_timestamp_column"

function write_record_loop ::
  "byte list \<Rightarrow> nat \<Rightarrow> nat \<Rightarrow> Record \<Rightarrow> nat \<Rightarrow> error + (byte list \<times> nat)" where
  "write_record_loop buf pos mx record i =
     (if i < Py_SIZE record
      then
        let column_def = column_defs (rtype record) ! i;
            column_value = column_values record ! i
        in if is_nullable column_def \<and> len column_value < 0
           then bindE (avro (write_long buf pos mx 1)) (\<lambda>(buf, pos).
                  write_record_loop buf pos mx record (i + 1))
           else bindE (if is_nullable column_def then avro (write_long buf pos mx 0)
                       else Inr (buf, pos)) (\<lambda>(buf, pos).
                bindE (write_column (data_type column_def) buf pos mx column_value) (\<lambda>(buf, pos).
                  write_record_loop buf pos mx record (i + 1)))
      else Inr (buf, pos))"
  by pat_completeness auto
termination
  by (relation "measure (\<lambda>(buf, pos, mx, record, i). Py_SIZE record - i)") auto

definition write_record ::
  "byte list \<Rightarrow> nat \<Rightarrow> nat \<Rightarrow> Record \<Rightarrow> error + (byte list \<times> nat)" where
  "write_record buf pos mx record = write_record_loop buf pos mx record 0"

subsection \<open>The Python methods \<open>Record.decode\<close> and \<open>Record.encode\<close>\<close>

datatype BufferRange = BufferRange (start: int) (range_length: int)

fun Record_decode_clear :: "Record \<Rightarrow> nat list \<Rightarrow> Record" where
  "Record_decode_clear self [] = self"
| "Record_decode_clear self (i # rest) =
     Record_decode_clear
       (clear_column (data_type (column_defs (rtype self) ! i)) self i True) rest"

text \<open>
  \<open>Record_decode\<close>: the window is the whole buffer or the checked range; all cells are
  cleared, then \<open>read_record\<close> runs.  The result is the record as the call leaves it, and
  either the exception raised or nothing.
\<close>

definition Record_decode ::
  "Record \<Rightarrow> byte list \<Rightarrow> BufferRange option \<Rightarrow> Record \<times> (error + unit)" where
  "Record_decode self buffer arg_range =
     (case (case arg_range of
              Some r \<Rightarrow>
                if \<not> (start r \<ge> 0 \<and> start r \<le> int (length buffer))
                then Inl (Exception PyExc_ValueError ''start index out of range'')
                else if \<not> (range_length r \<ge> 0
                            \<and> start r + range_length r \<le> int (length buffer))
                then Inl (Exception PyExc_ValueError ''length out of range'')
                else Inr (nat (start r), nat (start r) + nat (range_length r))
            | None \<Rightarrow> Inr (0, length buffer)) of
        Inl e \<Rightarrow> (self, Inl e)
      | Inr (pos, mx) \<Rightarrow>
          let self = Record_decode_clear self [0..<Py_SIZE self]
          in case read_record buffer pos mx self of
               (self, r) \<Rightarrow> (self, bindE (handle_read_error r) (\<lambda>pos. Inr ())))"

text \<open>
  \<open>Record_encode\<close>: a fresh bytes object of \<open>size_record\<close> bytes (its initial content is
  unspecified, zeroes here) is the whole window for \<open>write_record\<close>.
\<close>

definition Record_encode :: "Record \<Rightarrow> Record \<times> (error + byte list)" where
  "Record_encode self =
     (case size_record self of
        (self, Inl e) \<Rightarrow> (self, Inl e)
      | (self, Inr sz) \<Rightarrow>
          let result = replicate (nat sz) 0
          in (self, bindE (handle_write_error (write_record result 0 (nat sz) self))
                      (\<lambda>(result, pos). Inr result)))"

subsection \<open>Notation for concrete inputs\<close>

text \<open>The bytes of an ASCII string, and two-valued column definitions.\<close>

definition ascii :: "string \<Rightarrow> byte list" where
  "ascii s = map (\<lambda>c. of_nat (of_char c)) s"

definition column :: "ColumnDataType \<Rightarrow> bool \<Rightarrow> ColumnDef" where
  "column t nullable = \<lparr>data_type = t, is_nullable = nullable\<rparr>"

text \<open>
  Statement-side calendar for \<open>encode_date\<close>: the Gregorian leap rule and the length of a
  month.
\<close>

definition leap_year :: "int \<Rightarrow> bool" where
  "leap_year year = (year mod 4 = 0 \<and> (year mod 100 \<noteq> 0 \<or> year mod 400 = 0))"

definition days_in_month :: "int \<Rightarrow> int \<Rightarrow> int" where
  "days_in_month month year =
     (if month = 2 then (if leap_year year then 29 else 28)
      else if month = 4 \<or> month = 6 \<or> month = 9 \<or> month = 11 then 30
      else 31)"

definition valid_date :: "int \<Rightarrow> int \<Rightarrow> int \<Rightarrow> bool" where
  "valid_date year month day =
     (1000 \<le> year \<and> year \<le> 2900 \<and> 1 \<le> month \<and> month \<le> 12
      \<and> 1 \<le> day \<and> day \<le> days_in_month month year)"

section \<open>Schemas (schema.h, schema.c)\<close>

datatype SchemaDataType =
    SDT_NULLABLE | SDT_BOOLEAN | SDT_BYTES | SDT_DOUBLE | SDT_FLOAT | SDT_INT | SDT_LONG
  | SDT_STRING | SDT_ARRAY | SDT_MAP | SDT_RECORD | SDT_OBJECT | SDT_OBJECT_ARRAY

text \<open>
  Python objects, as far as schemas see them.  A \<open>float\<close> is the bit pattern of its C
  \<open>double\<close>, a \<open>str\<close> is its UTF-8 bytes, a \<open>dict\<close> is its items in insertion order.
  \<open>Py_None\<close>, \<open>Py_True\<close> and \<open>Py_False\<close> are singletons, so the pointer comparisons of the
  source are comparisons of values.  A \<open>Schema\<close> has its data type, name, default value and
  fields.
\<close>

datatype PyObject =
    Py_None
  | Py_Bool bool
  | PyLong int
  | PyFloat "64 word"
  | PyBytes "byte list"
  | PyUnicode "byte list"
  | PyList "PyObject list"
  | PyTuple "PyObject list"
  | PyDict "(PyObject \<times> PyObject) list"
  | PyBufferRange BufferRange
  | PySchema Schema
  | PyRecordType RecordType
  | PyRecord Record
and Schema =
    Schema (schema_data_type: SchemaDataType) (schema_name: PyObject)
      (default_value: PyObject) (fields: "Schema list")

text \<open>
  The interpreter.  What CPython's conversion functions do with an arbitrary object is not
  part of this repository, so the functions of the C API that convert or inspect objects
  are a parameter \<open>py\<close> of the schema operations; results proved for every \<open>py\<close> hold for
  the real interpreter.  \<open>utf8_decode_error\<close> is the exception that decoding a byte string
  as UTF-8 raises, if it raises one.  \<open>float_of_double\<close> and \<open>double_of_float\<close> are the C
  conversions \<open>(float)\<close> and \<open>(double)\<close>.
\<close>

datatype PyRuntime = PyRuntime
  (PyObject_IsTrue: "PyObject \<Rightarrow> error + bool")
  (PyObject_Bytes: "PyObject \<Rightarrow> error + byte list")
  (PyNumber_Float: "PyObject \<Rightarrow> error + 64 word")
  (PyNumber_Long: "PyObject \<Rightarrow> error + int")
  (PyObject_Str: "PyObject \<Rightarrow> error + PyObject")
  (PyUnicode_AsUTF8String: "PyObject \<Rightarrow> error + byte list")
  (utf8_decode_error: "byte list \<Rightarrow> error option")
  (PySequence_Fast: "PyObject \<Rightarrow> string \<Rightarrow> error + PyObject list")
  (PyMapping_Check: "PyObject \<Rightarrow> bool")
  (PyMapping_Items: "PyObject \<Rightarrow> error + PyObject")
  (PyMapping_Length: "PyObject \<Rightarrow> error + int")
  (PyMapping_HasKey: "PyObject \<Rightarrow> PyObject \<Rightarrow> bool")
  (PyObject_GetItem: "PyObject \<Rightarrow> PyObject \<Rightarrow> error + PyObject")
  (float_of_double: "64 word \<Rightarrow> 32 word")
  (double_of_float: "32 word \<Rightarrow> 64 word")

definition PyUnicode_FromStringAndSize :: "PyRuntime \<Rightarrow> byte list \<Rightarrow> error + PyObject" where
  "PyUnicode_FromStringAndSize py bs =
     (case utf8_decode_error py bs of None \<Rightarrow> Inr (PyUnicode bs) | Some e \<Rightarrow> Inl e)"

text \<open>
  \<open>PyDict_SetItem\<close> on string keys: the last value stored under a key wins, and a key keeps
  the place of its first insertion.
\<close>

fun PyDict_SetItem ::
  "(PyObject \<times> PyObject) list \<Rightarrow> PyObject \<Rightarrow> PyObject \<Rightarrow> (PyObject \<times> PyObject) list" where
  "PyDict_SetItem [] key v = [(key, v)]"
| "PyDict_SetItem ((k, w) # items) key v =
     (if k = key then (k, v) # items else (k, w) # PyDict_SetItem items key v)"


subsection \<open>Reading with a schema\<close>

text \<open>
  A reading function gets the buffer \<open>buf\<close>, whose base is index 0, the cursor and the limit;
  \<open>rd\<close> stands for the recursive call of \<open>read_schema\<close>.  \<open>PyTuple_GET_ITEM(schema->fields, 0)\<close>
  on a schema without fields reads past the tuple.
\<close>

definition read_nullable_schema ::
  "(Schema \<Rightarrow> nat \<Rightarrow> error + (PyObject \<times> nat)) \<Rightarrow> Schema \<Rightarrow> byte list \<Rightarrow> nat \<Rightarrow> nat
     \<Rightarrow> error + (PyObject \<times> nat)" where
  "read_nullable_schema rd schema buf pos mx =
     bindE (handle_read_error (avro (read_long buf pos mx))) (\<lambda>(is_null, pos).
       if is_null = 1 then Inr (Py_None, pos)
       else if is_null = 0
       then (case fields schema of
               [] \<Rightarrow> Inl (Fault OutOfBoundsRead)
             | field # _ \<Rightarrow> rd field pos)
       else handle_read_error (Inl (Avro ERR_OVERFLOW)))"

definition read_boolean_schema :: "byte list \<Rightarrow> nat \<Rightarrow> nat \<Rightarrow> error + (PyObject \<times> nat)" where
  "read_boolean_schema buf pos mx =
     bindE (handle_read_error (avro (read_boolean buf pos mx))) (\<lambda>(v, pos).
       Inr (Py_Bool v, pos))"

definition read_bytes_schema :: "byte list \<Rightarrow> nat \<Rightarrow> nat \<Rightarrow> error + (PyObject \<times> nat)" where
  "read_bytes_schema buf pos mx =
     bindE (handle_read_error (avro (read_bytes_len buf pos mx))) (\<lambda>(len, pos).
       case read_bytes_data buf pos len of (bs, pos) \<Rightarrow> Inr (PyBytes bs, pos))"

definition read_double_schema :: "byte list \<Rightarrow> nat \<Rightarrow> nat \<Rightarrow> error + (PyObject \<times> nat)" where
  "read_double_schema buf pos mx =
     bindE (handle_read_error (avro (read_double buf pos mx))) (\<lambda>(d, pos).
       Inr (PyFloat (bytes_word d), pos))"

definition read_float_schema ::
  "PyRuntime \<Rightarrow> byte list \<Rightarrow> nat \<Rightarrow> nat \<Rightarrow> error + (PyObject \<times> nat)" where
  "read_float_schema py buf pos mx =
     bindE (handle_read_error (avro (read_float buf pos mx))) (\<lambda>(f, pos).
       Inr (PyFloat (double_of_float py (ucast (bytes_word f))), pos))"

definition read_int_schema :: "byte list \<Rightarrow> nat \<Rightarrow> nat \<Rightarrow> error + (PyObject \<times> nat)" where
  "read_int_schema buf pos mx =
     bindE (handle_read_error (avro (read_int buf pos mx))) (\<lambda>(v, pos).
       Inr (PyLong (sint v), pos))"

definition read_long_schema :: "byte list \<Rightarrow> nat \<Rightarrow> nat \<Rightarrow> error + (PyObject \<times> nat)" where
  "read_long_schema buf pos mx =
     bindE (handle_read_error (avro (read_long buf pos mx))) (\<lambda>(v, pos).
       Inr (PyLong (sint v), pos))"

definition read_string_schema ::
  "PyRuntime \<Rightarrow> byte list \<Rightarrow> nat \<Rightarrow> nat \<Rightarrow> error + (PyObject \<times> nat)" where
  "read_string_schema py buf pos mx =
     bindE (handle_read_error (avro (read_bytes_len buf pos mx))) (\<lambda>(len, pos).
       case read_bytes_data buf pos len of (bs, pos) \<Rightarrow>
         bindE (PyUnicode_FromStringAndSize py bs) (\<lambda>result. Inr (result, pos)))"

text \<open>The inner loop \<open>while (block_count > 0)\<close> of the array readers.\<close>

fun read_block_items ::
  "(nat \<Rightarrow> error + (PyObject \<times> nat)) \<Rightarrow> nat \<Rightarrow> nat \<Rightarrow> error + (PyObject list \<times> nat)" where
  "read_block_items rd 0 pos = Inr ([], pos)"
| "read_block_items rd (Suc block_count) pos =
     bindE (rd pos) (\<lambda>(item, pos).
     bindE (read_block_items rd block_count pos) (\<lambda>(items, pos).
       Inr (item # items, pos)))"

text \<open>
  The outer loop \<open>while (1)\<close> of \<open>read_array_schema\<close> and \<open>read_object_array_schema\<close>, entered
  with the first block count already read.  Growing the list for a further block is storage
  management; the model appends.  The first argument counts the blocks still allowed.
\<close>

fun read_blocks ::
  "nat \<Rightarrow> (nat \<Rightarrow> error + (PyObject \<times> nat)) \<Rightarrow> byte list \<Rightarrow> nat \<Rightarrow> nat \<Rightarrow> int
     \<Rightarrow> PyObject list \<Rightarrow> error + (PyObject list \<times> nat)" where
  "read_blocks 0 rd buf pos mx block_count result = Inl (Limit BlockCount)"
| "read_blocks (Suc n) rd buf pos mx block_count result =
     (if block_count = 0 then Inr (result, pos)
      else
        bindE (if block_count < 0
               then bindE (handle_read_error (avro (read_long buf pos mx))) (\<lambda>(sz, pos).
                      Inr (- block_count, pos))
               else Inr (block_count, pos)) (\<lambda>(block_count, pos).
        bindE (read_block_items rd (nat block_count) pos) (\<lambda>(items, pos).
        bindE (handle_read_error (avro (read_size buf pos mx))) (\<lambda>(block_count, pos).
          read_blocks n rd buf pos mx (sint block_count) (result @ items)))))"

definition read_array_schema ::
  "(Schema \<Rightarrow> nat \<Rightarrow> error + (PyObject \<times> nat)) \<Rightarrow> Schema \<Rightarrow> byte list \<Rightarrow> nat \<Rightarrow> nat
     \<Rightarrow> error + (PyObject \<times> nat)" where
  "read_array_schema rd schema buf pos mx =
     (case fields schema of
        [] \<Rightarrow> Inl (Fault OutOfBoundsRead)
      | field # _ \<Rightarrow>
          bindE (handle_read_error (avro (read_size buf pos mx))) (\<lambda>(block_count, pos).
          bindE (read_blocks (mx - pos + 1) (rd field) buf pos mx (sint block_count) [])
            (\<lambda>(result, pos). Inr (PyList result, pos))))"

text \<open>The loops of \<open>read_map_schema\<close>: the entries of one block, and the blocks.\<close>

fun read_map_entries ::
  "PyRuntime \<Rightarrow> (nat \<Rightarrow> error + (PyObject \<times> nat)) \<Rightarrow> byte list \<Rightarrow> nat \<Rightarrow> nat \<Rightarrow> nat
     \<Rightarrow> (PyObject \<times> PyObject) list \<Rightarrow> error + ((PyObject \<times> PyObject) list \<times> nat)" where
  "read_map_entries py rd buf pos mx 0 result = Inr (result, pos)"
| "read_map_entries py rd buf pos mx (Suc n) result =
     bindE (read_string_schema py buf pos mx) (\<lambda>(key, pos).
     bindE (rd pos) (\<lambda>(v, pos).
       read_map_entries py rd buf pos mx n (PyDict_SetItem result key v)))"

fun read_map_blocks ::
  "nat \<Rightarrow> PyRuntime \<Rightarrow> (nat \<Rightarrow> error + (PyObject \<times> nat)) \<Rightarrow> byte list \<Rightarrow> nat \<Rightarrow> nat
     \<Rightarrow> (PyObject \<times> PyObject) list \<Rightarrow> error + ((PyObject \<times> PyObject) list \<times> nat)" where
  "read_map_blocks 0 py rd buf pos mx result = Inl (Limit BlockCount)"
| "read_map_blocks (Suc n) py rd buf pos mx result =
     bindE (handle_read_error (avro (read_size buf pos mx))) (\<lambda>(c, pos).
       if c = 0 then Inr (result, pos)
       else
         bindE (if sint c < 0
                then bindE (handle_read_error (avro (read_long buf pos mx))) (\<lambda>(sz, pos).
                       Inr (- sint c, pos))
                else Inr (sint c, pos)) (\<lambda>(c, pos).
         bindE (read_map_entries py rd buf pos mx (nat c) result) (\<lambda>(result, pos).
           read_map_blocks n py rd buf pos mx result)))"

definition read_map_schema ::
  "PyRuntime \<Rightarrow> (Schema \<Rightarrow> nat \<Rightarrow> error + (PyObject \<times> nat)) \<Rightarrow> Schema \<Rightarrow> byte list \<Rightarrow> nat
     \<Rightarrow> nat \<Rightarrow> error + (PyObject \<times> nat)" where
  "read_map_schema py rd schema buf pos mx =
     (case fields schema of
        [] \<Rightarrow> Inl (Fault OutOfBoundsRead)
      | field # _ \<Rightarrow>
          bindE (read_map_blocks (mx - pos + 1) py (rd field) buf pos mx [])
            (\<lambda>(result, pos). Inr (PyDict result, pos)))"

fun read_record_fields ::
  "(Schema \<Rightarrow> nat \<Rightarrow> error + (PyObject \<times> nat)) \<Rightarrow> Schema list \<Rightarrow> nat
     \<Rightarrow> (PyObject \<times> PyObject) list \<Rightarrow> error + ((PyObject \<times> PyObject) list \<times> nat)" where
  "read_record_fields rd [] pos result = Inr (result, pos)"
| "read_record_fields rd (field # rest) pos result =
     bindE (rd field pos) (\<lambda>(v, pos).
       read_record_fields rd rest pos (PyDict_SetItem result (schema_name field) v))"

definition read_record_schema ::
  "(Schema \<Rightarrow> nat \<Rightarrow> error + (PyObject \<times> nat)) \<Rightarrow> Schema \<Rightarrow> byte list \<Rightarrow> nat \<Rightarrow> nat
     \<Rightarrow> error + (PyObject \<times> nat)" where
  "read_record_schema rd schema buf pos mx =
     bindE (read_record_fields rd (fields schema) pos [])
       (\<lambda>(result, pos). Inr (PyDict result, pos))"

text \<open>
  \<open>read_object_schema\<close>: \<open>BufferRange_create(*pos - buf, len)\<close> after the length has been
  read, then the cursor skips the payload.
\<close>

definition read_object_schema :: "byte list \<Rightarrow> nat \<Rightarrow> nat \<Rightarrow> error + (PyObject \<times> nat)" where
  "read_object_schema buf pos mx =
     bindE (handle_read_error (avro (read_bytes_len buf pos mx))) (\<lambda>(len, pos).
       Inr (PyBufferRange (BufferRange (int pos) (int len)), pos + len))"

definition read_object_array_schema ::
  "byte list \<Rightarrow> nat \<Rightarrow> nat \<Rightarrow> error + (PyObject \<times> nat)" where
  "read_object_array_schema buf pos mx =
     bindE (handle_read_error (avro (read_size buf pos mx))) (\<lambda>(block_count, pos).
     bindE (read_blocks (mx - pos + 1) (\<lambda>pos. read_object_schema buf pos mx) buf pos mx
              (sint block_count) [])
       (\<lambda>(result, pos). Inr (PyList result, pos)))"

text \<open>\<open>read_schema\<close>: the dispatch table \<open>read_schema_types\<close>.\<close>

fun read_schema ::
  "PyRuntime \<Rightarrow> nat \<Rightarrow> Schema \<Rightarrow> byte list \<Rightarrow> nat \<Rightarrow> nat \<Rightarrow> error + (PyObject \<times> nat)" where
  "read_schema py 0 schema buf pos mx = Inl (Limit StackDepth)"
| "read_schema py (Suc depth) schema buf pos mx =
     (case schema_data_type schema of
        SDT_NULLABLE \<Rightarrow>
          read_nullable_schema (\<lambda>field pos. read_schema py depth field buf pos mx) schema buf pos mx
      | SDT_BOOLEAN \<Rightarrow> read_boolean_schema buf pos mx
      | SDT_BYTES \<Rightarrow> read_bytes_schema buf pos mx
      | SDT_DOUBLE \<Rightarrow> read_double_schema buf pos mx
      | SDT_FLOAT \<Rightarrow> read_float_schema py buf pos mx
      | SDT_INT \<Rightarrow> read_int_schema buf pos mx
      | SDT_LONG \<Rightarrow> read_long_schema buf pos mx
      | SDT_STRING \<Rightarrow> read_string_schema py buf pos mx
      | SDT_ARRAY \<Rightarrow>
          read_array_schema (\<lambda>field pos. read_schema py depth field buf pos mx) schema buf pos mx
      | SDT_MAP \<Rightarrow>
          read_map_schema py (\<lambda>field pos. read_schema py depth field buf pos mx) schema buf pos mx
      | SDT_RECORD \<Rightarrow>
          read_record_schema (\<lambda>field pos. read_schema py depth field buf pos mx) schema buf pos mx
      | SDT_OBJECT \<Rightarrow> read_object_schema buf pos mx
      | SDT_OBJECT_ARRAY \<Rightarrow> read_object_array_schema buf pos mx)"

text \<open>
  \<open>Schema_decode\<close>: the cursor starts at \<open>buffer.buf + start\<close>, and \<open>buffer.buf\<close> itself is
  handed down as the base \<open>buf\<close>.
\<close>

definition Schema_decode ::
  "PyRuntime \<Rightarrow> nat \<Rightarrow> Schema \<Rightarrow> byte list \<Rightarrow> BufferRange option \<Rightarrow> error + PyObject" where
  "Schema_decode py depth self buffer arg_range =
     bindE (case arg_range of
              Some r \<Rightarrow>
                if \<not> (start r \<ge> 0 \<and> start r \<le> int (length buffer))
                then Inl (Exception PyExc_ValueError ''start index out of range'')
                else if \<not> (range_length r \<ge> 0
                            \<and> start r + range_length r \<le> int (length buffer))
                then Inl (Exception PyExc_ValueError ''length out of range'')
                else Inr (nat (start r), nat (start r) + nat (range_length r))
            | None \<Rightarrow> Inr (0, length buffer)) (\<lambda>(pos, mx).
     bindE (read_schema py depth self buffer pos mx) (\<lambda>(result, pos). Inr result))"

subsection \<open>The buffer ranges of a decoded value\<close>

text \<open>
  The \<open>BufferRange\<close> objects inside a decoded value: the elements of lists and the values
  of dictionaries are searched, dictionary keys are strings.
\<close>

fun ranges_of :: "PyObject \<Rightarrow> BufferRange list" where
  "ranges_of (PyBufferRange r) = [r]"
| "ranges_of (PyList xs) = concat (map ranges_of xs)"
| "ranges_of (PyDict items) = concat (map (\<lambda>kv. ranges_of (snd kv)) items)"
| "ranges_of v = []"

definition ranges_of_list :: "PyObject list \<Rightarrow> BufferRange list" where
  "ranges_of_list xs = concat (map ranges_of xs)"

definition ranges_of_items :: "(PyObject \<times> PyObject) list \<Rightarrow> BufferRange list" where
  "ranges_of_items items = concat (map (\<lambda>kv. ranges_of (snd kv)) items)"

text \<open>The indices of the buffer that a range covers.\<close>

definition covers :: "BufferRange \<Rightarrow> nat \<Rightarrow> bool" where
  "covers r i \<longleftrightarrow> start r \<le> int i \<and> int i < start r + range_length r"

text \<open>
  \<open>payload_range buf mx pos pos' r\<close>: somewhere in the part of the buffer from \<open>pos\<close> to \<open>pos'\<close>
  an Avro \<open>bytes\<close> value is encoded whose payload begins at index \<open>start r\<close>, counted from
  the base of the buffer, and is \<open>range_length r\<close> bytes long.
\<close>

definition payload_range :: "byte list \<Rightarrow> nat \<Rightarrow> nat \<Rightarrow> nat \<Rightarrow> BufferRange \<Rightarrow> bool" where
  "payload_range buf mx pos pos' r \<longleftrightarrow>
     0 \<le> start r \<and> 0 \<le> range_length r
     \<and> (\<exists>p. pos \<le> p \<and> p < nat (start r)
            \<and> read_bytes_len buf p mx = Inr (nat (range_length r), nat (start r)))
     \<and> nat (start r) + nat (range_length r) \<le> pos'"

text \<open>
  \<open>same_outside rs buf buf' pos pos'\<close>: the two buffers have the same bytes from \<open>pos\<close> to
  \<open>pos'\<close>, except perhaps inside the ranges \<open>rs\<close>.
\<close>

definition same_outside ::
  "BufferRange list \<Rightarrow> byte list \<Rightarrow> byte list \<Rightarrow> nat \<Rightarrow> nat \<Rightarrow> bool" where
  "same_outside rs buf buf' pos pos' \<longleftrightarrow>
     length buf' = length buf
     \<and> (\<forall>i. pos \<le> i \<and> i < pos' \<and> (\<forall>r \<in> set rs. \<not> covers r i) \<longrightarrow> buf' ! i = buf ! i)"

text \<open>
  A reader \<open>R\<close> leaves payloads alone: when it succeeds it has moved the cursor forward, every
  range in its result that is not among the known ranges \<open>A\<close> is a payload range of the part
  it consumed, and it returns the same on every buffer that differs only inside payloads.
\<close>

definition skips_payloads ::
  "nat \<Rightarrow> BufferRange set \<Rightarrow> ('a \<Rightarrow> BufferRange list)
     \<Rightarrow> (byte list \<Rightarrow> nat \<Rightarrow> error + ('a \<times> nat)) \<Rightarrow> bool" where
  "skips_payloads mx A rng R \<longleftrightarrow>
     (\<forall>buf pos v pos'. R buf pos = Inr (v, pos') \<longrightarrow>
        pos \<le> pos'
        \<and> (\<exists>rs. set (rng v) \<subseteq> A \<union> set rs
              \<and> (\<forall>r \<in> set rs. payload_range buf mx pos pos' r)
              \<and> (\<forall>buf'. same_outside rs buf buf' pos pos' \<longrightarrow> R buf' pos = Inr (v, pos'))))"

section \<open>Properties of the Avro integer codec\<close>

declare varint_bytes.simps [simp del] write_long_loop.simps [simp del] read_long_loop.simps [simp del]
  size_long_loop.simps [simp del]

lemma write_long_loop_varint:
  "(case write_long_loop n out of (out', r) \<Rightarrow> out' @ [ucast r]) = out @ varint_bytes n"
proof (induction n out rule: write_long_loop.induct)
  case (1 n out)
  show ?case
  proof (cases "n AND NOT 0x7F \<noteq> 0")
    case True
    then show ?thesis
      using "1.IH" by (subst write_long_loop.simps, subst varint_bytes.simps) simp
  next
    case False
    then show ?thesis
      by (subst write_long_loop.simps, subst varint_bytes.simps) simp
  qed
qed

lemma long_bytes_varint: "long_bytes l = varint_bytes (zigzag l)"
  using write_long_loop_varint [of "zigzag l" "[]"] by (simp add: long_bytes_def)

lemma size_long_loop_varint: "size_long_loop n k + 1 = k + length (varint_bytes n)"
proof (induction n k rule: size_long_loop.induct)
  case (1 n k)
  show ?case
  proof (cases "n AND NOT 0x7F \<noteq> 0")
    case True
    then show ?thesis
      using "1.IH" by (subst size_long_loop.simps, subst varint_bytes.simps) simp
  next
    case False
    then show ?thesis
      by (subst size_long_loop.simps, subst varint_bytes.simps) simp
  qed
qed

lemma size_long_length: "size_long l = length (long_bytes l)"
  using size_long_loop_varint [of "zigzag l" 0] by (simp add: size_long_def long_bytes_varint)

lemma bit_times2: "bit (l * 2 :: 'a::len word) n \<longleftrightarrow> n < LENGTH('a) \<and> 0 < n \<and> bit l (n - 1)"
proof -
  have eq: "l * 2 = push_bit (Suc 0) l" by (simp add: push_bit_eq_mult)
  show ?thesis unfolding eq bit_push_bit_iff by (auto simp: Suc_le_eq possible_bit_word)
qed

lemma sdb: "signed_drop_bit 63 (l::64 word) = (if bit l 63 then -1 else 0)"
proof (rule bit_word_eqI)
  fix n assume "n < LENGTH(64)"
  then show "bit (signed_drop_bit 63 l) n = bit (if bit l 63 then - 1 else 0 :: 64 word) n"
    by (cases "n = 0") (auto simp: bit_signed_drop_bit_iff)
qed

lemma zz_and1: "zigzag l AND 1 = (if bit l 63 then 1 else 0)"
  unfolding zigzag_def sdb
  by (rule bit_word_eqI) (auto simp: bit_simps bit_times2)

lemma zz: "drop_bit 1 (zigzag l) XOR - (zigzag l AND 1) = l"
proof (cases "bit l 63")
  case True
  have "drop_bit 1 (zigzag l) XOR - 1 = l"
    unfolding zigzag_def sdb using True
    apply (intro bit_word_eqI)
    subgoal for n
      by (cases "n = 63") (auto simp: bit_simps bit_times2)
    done
  then show ?thesis using True by (simp add: zz_and1)
next
  case False
  have "drop_bit 1 (zigzag l) = l"
    unfolding zigzag_def sdb using False
    apply (intro bit_word_eqI)
    subgoal for n
      by (cases "n = 63") (auto simp: bit_simps bit_times2)
    done
  then show ?thesis using False by (simp add: zz_and1)
qed

lemma m7: "(0x7F :: 'a::len word) = mask 7"
  by (simp add: mask_eq_decr_exp)

lemma high_zero: "drop_bit 7 (n :: 64 word) = 0 \<Longrightarrow> n AND NOT 0x7F = 0"
proof -
  assume a: "drop_bit 7 n = 0"
  have "n AND NOT (mask 7) = push_bit 7 (drop_bit 7 n)"
    by (rule bit_word_eqI) (auto simp: bit_simps)
  then show ?thesis using a by (simp add: m7)
qed

lemma varint_bytes_length: "drop_bit (7 * Suc j) n = 0 \<Longrightarrow> length (varint_bytes n) \<le> Suc j"
proof (induction j arbitrary: n)
  case 0
  then have "n AND NOT 0x7F = 0" using high_zero by simp
  then show ?case by (subst varint_bytes.simps) simp
next
  case (Suc j)
  have "drop_bit (7 * Suc j) (drop_bit 7 n) = 0"
    using Suc.prems by (simp add: add.commute)
  then have "length (varint_bytes (drop_bit 7 n)) \<le> Suc j" by (rule Suc.IH)
  then show ?case by (subst varint_bytes.simps) simp
qed

lemma varint_bytes_le10: "length (varint_bytes n) \<le> 10"
proof -
  have "drop_bit (7 * Suc 9) n = 0" by (rule bit_word_eqI) (simp add: bit_simps)
  from varint_bytes_length [OF this] show ?thesis by simp
qed

lemma bit_0x80: "bit (0x80 :: 'a::semiring_bits) k \<longleftrightarrow> possible_bit TYPE('a) k \<and> k = 7"
proof -
  have "(0x80 :: 'a) = 2 ^ 7" by simp
  then show ?thesis by (simp only: bit_exp_iff)
qed

lemma split7: "(n AND 0x7F) OR push_bit 7 (drop_bit 7 n) = (n :: 64 word)"
  unfolding m7
  apply (rule bit_word_eqI)
  subgoal for k
    by (cases "k < 7") (auto simp: bit_simps)
  done

lemma cont_byte:
  "((ucast (n :: 64 word) AND 0x7F) OR 0x80 :: byte) AND 0x80 \<noteq> 0"
  "(ucast (((ucast (n :: 64 word) AND 0x7F) OR 0x80 :: byte) AND 0x7F) :: 64 word) = n AND 0x7F"
proof -
  have b: "bit (((ucast n AND 0x7F) OR 0x80 :: byte) AND 0x80) 7"
    by (simp add: bit_simps)
  show "((ucast n AND 0x7F) OR 0x80 :: byte) AND 0x80 \<noteq> 0"
    using b by auto
  show "(ucast (((ucast n AND 0x7F) OR 0x80 :: byte) AND 0x7F) :: 64 word) = n AND 0x7F"
    unfolding m7
    apply (rule bit_word_eqI)
    subgoal for k
      by (cases "k < 7") (auto simp: bit_simps bit_0x80)
    done
qed

lemma last_byte:
  assumes "(n :: 64 word) AND NOT 0x7F = 0"
  shows "(ucast n :: byte) AND 0x80 = 0" "(ucast ((ucast n :: byte) AND 0x7F) :: 64 word) = n"
proof -
  have z: "\<not> bit n k" if "7 \<le> k" for k
  proof
    assume "bit n k"
    then have "bit (n AND NOT (mask 7)) k" using that by (auto simp: bit_simps dest: bit_imp_le_length)
    then show False using assms by (simp add: m7)
  qed
  show "(ucast n :: byte) AND 0x80 = 0"
    apply (rule bit_word_eqI)
    subgoal for k using z [of 7]
      by (cases "k = 7") (auto simp: bit_simps bit_0x80)
    done
  show "(ucast ((ucast n :: byte) AND 0x7F) :: 64 word) = n"
    unfolding m7
    apply (rule bit_word_eqI)
    subgoal for k using z [of k]
      by (cases "k < 7") (auto simp: bit_simps)
    done
qed

lemma read_long_loop_varint:
  "k + length (varint_bytes n) \<le> max_offset \<Longrightarrow>
   (\<And>i. i < length (varint_bytes n) \<Longrightarrow> buf ! (pos + k + i) = varint_bytes n ! i) \<Longrightarrow>
   read_long_loop buf pos max_offset k acc
     = Inr (acc OR push_bit (7 * k) n, k + length (varint_bytes n))"
proof (induction n arbitrary: k acc rule: varint_bytes.induct)
  case (1 n)
  show ?case
  proof (cases "n AND NOT 0x7F \<noteq> 0")
    case True
    then have vb: "varint_bytes n = ((ucast n AND 0x7F) OR 0x80) # varint_bytes (drop_bit 7 n)"
      by (subst varint_bytes.simps) simp
    have b: "buf ! (pos + k) = (ucast n AND 0x7F) OR 0x80"
      using "1.prems"(2) [of 0] vb by simp
    have lt: "\<not> max_offset \<le> k" using "1.prems"(1) vb by simp
    have rest: "read_long_loop buf pos max_offset (Suc k) (acc OR push_bit (7 * k) (n AND 0x7F))
        = Inr ((acc OR push_bit (7 * k) (n AND 0x7F)) OR push_bit (7 * Suc k) (drop_bit 7 n),
               Suc k + length (varint_bytes (drop_bit 7 n)))"
    proof (rule "1.IH" [OF True])
      show "Suc k + length (varint_bytes (drop_bit 7 n)) \<le> max_offset"
        using "1.prems"(1) vb by simp
      fix i assume "i < length (varint_bytes (drop_bit 7 n))"
      then show "buf ! (pos + Suc k + i) = varint_bytes (drop_bit 7 n) ! i"
        using "1.prems"(2) [of "Suc i"] vb by simp
    qed
    have "(acc OR push_bit (7 * k) (n AND 0x7F)) OR push_bit (7 * Suc k) (drop_bit 7 n)
        = acc OR push_bit (7 * k) ((n AND 0x7F) OR push_bit 7 (drop_bit 7 n))"
      by (simp add: or.assoc add.commute del: push_bit_and)
    then have val: "(acc OR push_bit (7 * k) (n AND 0x7F)) OR push_bit (7 * Suc k) (drop_bit 7 n)
        = acc OR push_bit (7 * k) n"
      by (simp only: split7)
    show ?thesis
      apply (subst read_long_loop.simps)
      using lt b cont_byte [of n] rest val vb
      by (simp add: Let_def)
  next
    case False
    then have vb: "varint_bytes n = [ucast n]"
      by (subst varint_bytes.simps) simp
    have b: "buf ! (pos + k) = ucast n"
      using "1.prems"(2) [of 0] vb by simp
    have lt: "\<not> max_offset \<le> k" using "1.prems"(1) vb by simp
    show ?thesis
      apply (subst read_long_loop.simps)
      using lt b last_byte [of n] False vb
      by (simp add: Let_def)
  qed
qed

lemma nth_memcpy: "pos + length bs \<le> length buf \<Longrightarrow> i < length bs \<Longrightarrow> memcpy buf pos bs ! (pos + i) = bs ! i"
  by (simp add: memcpy_def nth_append)

lemma length_memcpy: "pos + length bs \<le> length buf \<Longrightarrow> length (memcpy buf pos bs) = length buf"
  by (simp add: memcpy_def)

lemma read_long_loop_all_cont:
  "offset \<le> max_offset \<Longrightarrow>
   (\<And>k. offset \<le> k \<Longrightarrow> k < max_offset \<Longrightarrow> buf ! (pos + k) AND 0x80 \<noteq> 0) \<Longrightarrow>
   read_long_loop buf pos max_offset offset acc
     = Inl (if max_offset = 10 then ERR_OVERFLOW else ERR_EOF)"
proof (induction buf pos max_offset offset acc rule: read_long_loop.induct)
  case (1 buf pos max_offset offset val)
  show ?case
  proof (cases "max_offset \<le> offset")
    case True
    then have "offset = max_offset" using "1.prems"(1) by simp
    then show ?thesis by (subst read_long_loop.simps) simp
  next
    case False
    then have c: "buf ! (pos + offset) AND 0x80 \<noteq> 0" using "1.prems"(2) [of offset] by simp
    have "read_long_loop buf pos max_offset (offset + 1)
            (val OR push_bit (7 * offset) (ucast (buf ! (pos + offset) AND 0x7F)))
          = Inl (if max_offset = 10 then ERR_OVERFLOW else ERR_EOF)"
      using False c "1.prems" by (intro "1.IH" [OF False refl refl refl]) auto
    then show ?thesis using False c by (subst read_long_loop.simps) (simp add: Let_def)
  qed
qed

lemma cont_bit: "(b :: byte) AND 0x80 \<noteq> 0 \<longleftrightarrow> bit b 7"
proof
  assume "b AND 0x80 \<noteq> 0"
  then obtain k where "bit (b AND 0x80) k" by (auto simp: bit_eq_iff)
  then show "bit b 7" by (auto simp: bit_simps bit_0x80)
next
  assume "bit b 7"
  then have "bit (b AND 0x80) 7" by (simp add: bit_simps bit_0x80)
  then show "b AND 0x80 \<noteq> 0" by auto
qed

text \<open>
  Claim C7.  \<open>read_long\<close> decodes every 64-bit value: whenever the window has room for the
  \<open>size_long l\<close> bytes of \<open>l\<close>, \<open>write_long\<close> stores them and \<open>read_long\<close> on the written
  buffer returns \<open>l\<close> with the cursor just behind them.  Ten bytes that all carry the
  continuation bit are \<open>ERR_OVERFLOW\<close>; a window of fewer than ten bytes, all with the
  continuation bit, is \<open>ERR_EOF\<close>.
\<close>

theorem read_long_accepts_all_values:
  "(pos + size_long l \<le> mx \<and> mx \<le> length buf \<longrightarrow>
      (\<exists>buf'. write_long buf pos mx l = Inr (buf', pos + size_long l)
             \<and> read_long buf' pos mx = Inr (l, pos + size_long l)))
   \<and> (pos + 10 \<le> mx \<and> (\<forall>k<10. bit (buf ! (pos + k)) 7) \<longrightarrow>
        read_long buf pos mx = Inl ERR_OVERFLOW)
   \<and> (pos \<le> mx \<and> mx < pos + 10 \<and> (\<forall>k<mx - pos. bit (buf ! (pos + k)) 7) \<longrightarrow>
        read_long buf pos mx = Inl ERR_EOF)"
proof (intro conjI impI)
  assume a: "pos + size_long l \<le> mx \<and> mx \<le> length buf"
  let ?bs = "long_bytes l"
  let ?buf' = "memcpy buf pos ?bs"
  have len: "size_long l = length ?bs" by (rule size_long_length)
  have le10: "length ?bs \<le> 10" by (simp add: long_bytes_varint varint_bytes_le10)
  have w: "write_long buf pos mx l = Inr (?buf', pos + size_long l)"
    using a by (simp add: write_long_def Let_def len)
  have fits: "pos + length ?bs \<le> length buf" using a len by simp
  have loop: "read_long_loop ?buf' pos (if mx - pos < 10 then mx - pos else 10) 0 0
      = Inr (0 OR push_bit (7 * 0) (zigzag l), 0 + length (varint_bytes (zigzag l)))"
  proof (rule read_long_loop_varint)
    show "0 + length (varint_bytes (zigzag l)) \<le> (if mx - pos < 10 then mx - pos else 10)"
      using a len le10 by (auto simp: long_bytes_varint)
    fix i assume "i < length (varint_bytes (zigzag l))"
    then show "?buf' ! (pos + 0 + i) = varint_bytes (zigzag l) ! i"
      using nth_memcpy [OF fits, of i] by (simp add: long_bytes_varint)
  qed
  have "read_long ?buf' pos mx = Inr (l, pos + size_long l)"
    using loop zz [of l] by (simp add: read_long_def Let_def len long_bytes_varint)
  with w show "\<exists>buf'. write_long buf pos mx l = Inr (buf', pos + size_long l)
             \<and> read_long buf' pos mx = Inr (l, pos + size_long l)" by blast
next
  assume a: "pos + 10 \<le> mx \<and> (\<forall>k<10. bit (buf ! (pos + k)) 7)"
  then have "read_long_loop buf pos 10 0 0 = Inl (if (10::nat) = 10 then ERR_OVERFLOW else ERR_EOF)"
    by (intro read_long_loop_all_cont) (auto simp: cont_bit)
  moreover have "\<not> mx - pos < 10" using a by auto
  ultimately show "read_long buf pos mx = Inl ERR_OVERFLOW"
    by (simp add: read_long_def Let_def)
next
  assume a: "pos \<le> mx \<and> mx < pos + 10 \<and> (\<forall>k<mx - pos. bit (buf ! (pos + k)) 7)"
  then have "read_long_loop buf pos (mx - pos) 0 0
      = Inl (if mx - pos = 10 then ERR_OVERFLOW else ERR_EOF)"
    by (intro read_long_loop_all_cont) (auto simp: cont_bit)
  moreover have "mx - pos < 10" using a by auto
  ultimately show "read_long buf pos mx = Inl ERR_EOF"
    by (simp add: read_long_def Let_def)
qed


theorem read_long_accepts_all_values_witness:
  "(\<exists>buf'. write_long (replicate 10 0) 0 10 (- (2 ^ 63)) = Inr (buf', 0 + size_long (- (2 ^ 63)))
        \<and> read_long buf' 0 10 = Inr (- (2 ^ 63), 0 + size_long (- (2 ^ 63))))
   \<and> read_long (replicate 10 0xFF) 0 10 = Inl ERR_OVERFLOW
   \<and> read_long [0x80, 0x80] 0 2 = Inl ERR_EOF"
proof -
  have h1: "0 + size_long (- (2 ^ 63)) \<le> 10 \<and> 10 \<le> length (replicate 10 (0 :: byte))"
    by code_simp
  have h2: "0 + 10 \<le> (10::nat) \<and> (\<forall>k<10. bit (replicate 10 (0xFF :: byte) ! (0 + k)) 7)"
    by (simp add: bit_simps)
  have h3: "(0::nat) \<le> 2 \<and> (2::nat) < 0 + 10 \<and> (\<forall>k<2 - 0. bit ([0x80, 0x80 :: byte] ! (0 + k)) 7)"
    by (simp add: less_Suc_eq numeral_2_eq_2 bit_simps)
  show ?thesis
    using read_long_accepts_all_values [of 0 "- (2 ^ 63)" 10 "replicate 10 0"] h1
      read_long_accepts_all_values [of 0 _ 10 "replicate 10 0xFF"] h2
      read_long_accepts_all_values [of 0 _ 2 "[0x80, 0x80]"] h3
    by blast
qed

declare read_int_loop.simps [simp del]

lemma and1_bit0: "(v :: 32 word) AND 1 = (if bit v 0 then 1 else 0)"
  apply (rule bit_word_eqI)
  subgoal for n by (cases "n = 0") (auto simp: bit_simps)
  done

lemma odd_unat_bit0: "odd (unat (v :: 32 word)) \<longleftrightarrow> bit v 0"
proof -
  have "bit (unat v) 0 \<longleftrightarrow> bit v 0" by (simp only: bit_unsigned_iff) simp
  then show ?thesis by (simp only: bit_0)
qed

lemma ud: "uint (drop_bit 1 (v :: 32 word)) = int (unat v div 2)"
proof -
  have "unat (drop_bit 1 v) = drop_bit 1 (unat v)" by (rule unat_drop_bit_eq)
  also have "\<dots> = unat v div 2 ^ 1" by (rule drop_bit_eq_div)
  finally have "unat (drop_bit 1 v) = unat v div 2" by simp
  then show ?thesis by (simp only: uint_nat)
qed

lemma small: "int (unat (v :: 32 word) div 2) < 2 ^ 31"
proof -
  have "unat v < 2 ^ 32" using unsigned_less [of v] by simp
  then show ?thesis by simp
qed

lemma dw: "drop_bit 1 (v :: 32 word) = word_of_int (int (unat v div 2))"
    using ud [of v] by (metis word_of_int_uint)

lemma s1: "sint (drop_bit 1 (v :: 32 word)) = int (unat v div 2)"
  by (subst dw, subst sint_sbintrunc') (use small [of v] in \<open>simp add: signed_take_bit_int_eq_self\<close>)

lemma s2: "NOT (drop_bit 1 (v :: 32 word)) = word_of_int (- int (unat v div 2) - 1)"
      by (subst dw) (simp add: not_eq_complement)

lemma s3: "sint (NOT (drop_bit 1 (v :: 32 word))) = - int (unat v div 2) - 1"
  by (subst s2, subst sint_sbintrunc') (use small [of v] in \<open>simp add: signed_take_bit_int_eq_self\<close>)

lemma pb: "push_bit 7 (x :: 32 word) = 128 * x" for x
  proof -
    have "push_bit 7 x = x * 2 ^ 7" by (rule push_bit_eq_mult)
    then show ?thesis by simp
  qed

lemma g: "(of_nat (a + 128 * p) :: 32 word) = of_nat a + push_bit 7 (of_nat p)" for a p :: nat
    unfolding pb by simp

lemma t1: "(of_nat (varint_payload (b # bs)) :: 32 word)
      = of_nat (unat (b AND 0x7F)) + push_bit 7 (of_nat (varint_payload bs))"
  apply (subst varint_payload.simps)
  apply (rule g)
  done

lemma t2: "(of_nat (varint_payload (b # bs)) :: 32 word)
      = ucast (b AND 0x7F) + push_bit 7 (of_nat (varint_payload bs))"
  apply (subst t1)
  apply (subst of_nat_unat)
  apply (rule refl)
  done

lemma step32:
  "(ucast ((ucast (v :: 32 word) :: 64 word) OR push_bit (7 * k) (ucast ((b :: byte) AND 0x7F) :: 64 word)) :: 32 word)
     = v OR push_bit (7 * k) (ucast (b AND 0x7F))"
  by (rule bit_word_eqI) (auto simp: bit_simps)

lemma payload_cons32:
  "(of_nat (varint_payload (b # bs)) :: 32 word)
     = ucast (b AND 0x7F) OR push_bit 7 (of_nat (varint_payload bs))"
proof -
  have d: "(ucast (b AND 0x7F) :: 32 word) + push_bit 7 (of_nat (varint_payload bs))
      = ucast (b AND 0x7F) OR push_bit 7 (of_nat (varint_payload bs))"
    unfolding m7
    apply (rule disjunctive_add)
    subgoal for n by (cases "n < 7") (auto simp: bit_simps)
    done
  show ?thesis by (rule trans [OF t2 d])
qed

lemma payload_single32: "(of_nat (varint_payload [b]) :: 32 word) = ucast (b AND 0x7F)"
  by (subst payload_cons32) simp

lemma zigzag32_decode:
  "sint (drop_bit 1 (v :: 32 word) XOR - (v AND 1)) = zigzag_decode (unat v)"
proof (cases "bit v 0")
  case True
  then have "drop_bit 1 v XOR - (v AND 1) = NOT (drop_bit 1 v)" by (simp add: and1_bit0)
  then show ?thesis using True s3 [of v] odd_unat_bit0 [of v] by (simp add: zigzag_decode_def)
next
  case False
  then have "drop_bit 1 v XOR - (v AND 1) = drop_bit 1 v" by (simp add: and1_bit0)
  then show ?thesis using False s1 [of v] odd_unat_bit0 [of v] by (simp add: zigzag_decode_def)
qed

lemma read_int_loop_payload:
  "read_int_loop buf pos max_offset k acc = Inr (v, k') \<Longrightarrow>
   k < k' \<and> k' \<le> max_offset \<and>
   v = acc OR push_bit (7 * k) (of_nat (varint_payload (map (\<lambda>j. buf ! (pos + j)) [k..<k'])))"
proof (induction buf pos max_offset k acc rule: read_int_loop.induct)
  case (1 buf pos max_offset offset val)
  let ?b = "buf ! (pos + offset)"
  let ?val' = "val OR push_bit (7 * offset) (ucast (?b AND 0x7F) :: 32 word)"
  have nle: "\<not> max_offset \<le> offset"
    using "1.prems" by (subst (asm) read_int_loop.simps) (auto split: if_splits)
  show ?case
  proof (cases "?b AND 0x80 \<noteq> 0")
    case True
    have rec: "read_int_loop buf pos max_offset (offset + 1) ?val' = Inr (v, k')"
      using "1.prems" nle True
      by (subst (asm) read_int_loop.simps) (simp add: Let_def step32)
    have ih: "offset + 1 < k' \<and> k' \<le> max_offset \<and>
        v = ?val' OR push_bit (7 * (offset + 1))
              (of_nat (varint_payload (map (\<lambda>j. buf ! (pos + j)) [offset + 1..<k'])))"
      using "1.IH" [OF nle refl _ refl True] rec by (simp add: step32)
    then have upt: "[offset..<k'] = offset # [offset + 1..<k']"
      by (simp add: upt_conv_Cons)
    have "push_bit (7 * offset)
            (of_nat (varint_payload (map (\<lambda>j. buf ! (pos + j)) [offset..<k'])) :: 32 word)
        = push_bit (7 * offset) (ucast (?b AND 0x7F))
          OR push_bit (7 * (offset + 1))
               (of_nat (varint_payload (map (\<lambda>j. buf ! (pos + j)) [offset + 1..<k'])))"
      unfolding upt list.map payload_cons32
      by (simp add: add.commute del: push_bit_and)
    then show ?thesis using ih by (simp add: or.assoc)
  next
    case False
    have res: "v = ?val' \<and> k' = offset + 1"
      using "1.prems" nle False
      by (subst (asm) read_int_loop.simps) (auto simp add: Let_def step32)
    then show ?thesis using nle by (simp add: payload_single32)
  qed
qed

lemma read_int_loop_accepts:
  "k \<le> j \<Longrightarrow> j < max_offset \<Longrightarrow>
   (\<And>i. k \<le> i \<Longrightarrow> i < j \<Longrightarrow> buf ! (pos + i) AND 0x80 \<noteq> 0) \<Longrightarrow>
   buf ! (pos + j) AND 0x80 = 0 \<Longrightarrow>
   \<exists>v. read_int_loop buf pos max_offset k acc = Inr (v, Suc j)"
proof (induction buf pos max_offset k acc rule: read_int_loop.induct)
  case (1 buf pos max_offset offset val)
  have nle: "\<not> max_offset \<le> offset" using "1.prems" by simp
  show ?case
  proof (cases "offset = j")
    case True
    then show ?thesis using nle "1.prems"(4)
      by (subst read_int_loop.simps) (simp add: Let_def)
  next
    case False
    then have c: "buf ! (pos + offset) AND 0x80 \<noteq> 0" using "1.prems" by simp
    have "\<exists>v. read_int_loop buf pos max_offset (offset + 1)
            (ucast ((ucast val :: 64 word)
                OR push_bit (7 * offset) (ucast (buf ! (pos + offset) AND 0x7F) :: 64 word))) = Inr (v, Suc j)"
      using False "1.prems" by (intro "1.IH" [OF nle refl refl refl c]) auto
    then show ?thesis using nle c
      by (subst read_int_loop.simps) (simp add: Let_def)
  qed
qed

lemma all4: "(\<forall>k<4. P (k::nat)) \<longleftrightarrow> P 0 \<and> P 1 \<and> P 2 \<and> P 3"
  by (auto simp: numeral_eq_Suc less_Suc_eq)

lemma window_map: "pos + n \<le> length buf \<Longrightarrow> map (\<lambda>j. buf ! (pos + j)) [0..<n] = take n (drop pos buf)"
  by (rule nth_equalityI) auto

text \<open>
  Claim C10.  \<open>read_int\<close> consumes between one and five bytes, and its result is the zig-zag
  decoding of the varint payload of the consumed bytes reduced modulo \<open>2 ^ 32\<close>.  A five-byte
  varint whose fifth byte has the continuation bit clear is always accepted, whatever its
  payload bits above bit 31 are: they are dropped, not reported as \<open>ERR_OVERFLOW\<close>.
\<close>

theorem read_int_discards_high_bits:
  "(pos \<le> mx \<and> mx \<le> length buf \<and> read_int buf pos mx = Inr (i, pos') \<longrightarrow>
      pos < pos' \<and> pos' \<le> pos + 5 \<and> pos' \<le> mx
      \<and> sint i = zigzag_decode (varint_payload (take (pos' - pos) (drop pos buf)) mod 2 ^ 32))
   \<and> (pos + 5 \<le> mx \<and> (\<forall>k<4. bit (buf ! (pos + k)) 7) \<and> \<not> bit (buf ! (pos + 4)) 7 \<longrightarrow>
        (\<exists>i. read_int buf pos mx = Inr (i, pos + 5)))"
proof (rule conjI; rule impI)
  assume a: "pos \<le> mx \<and> mx \<le> length buf \<and> read_int buf pos mx = Inr (i, pos')"
  let ?mo = "if mx - pos < 5 then mx - pos else 5"
  from a obtain v k' where
    loop: "read_int_loop buf pos ?mo 0 0 = Inr (v, k')" and
    i: "i = scast (drop_bit 1 v XOR - (v AND 1))" and p: "pos' = pos + k'"
    by (auto simp: read_int_def Let_def split: sum.splits)
  from read_int_loop_payload [OF loop]
  have k: "0 < k'" "k' \<le> ?mo"
    and v: "v = of_nat (varint_payload (map (\<lambda>j. buf ! (pos + j)) [0..<k']))"
    by simp_all
  have fits: "pos + k' \<le> length buf" using a k by (auto split: if_splits)
  have v': "unat v = varint_payload (take k' (drop pos buf)) mod 2 ^ 32"
    unfolding v window_map [OF fits] by (simp add: unat_of_nat)
  have "sint i = sint (drop_bit 1 v XOR - (v AND 1))"
    unfolding i by (rule sint_up_scast) (simp add: is_up)
  then have "sint i = zigzag_decode (varint_payload (take (pos' - pos) (drop pos buf)) mod 2 ^ 32)"
    using v' p zigzag32_decode [of v] by simp
  then show "pos < pos' \<and> pos' \<le> pos + 5 \<and> pos' \<le> mx
      \<and> sint i = zigzag_decode (varint_payload (take (pos' - pos) (drop pos buf)) mod 2 ^ 32)"
    using k p a by (auto split: if_splits)
next
  assume a: "pos + 5 \<le> mx \<and> (\<forall>k<4. bit (buf ! (pos + k)) 7) \<and> \<not> bit (buf ! (pos + 4)) 7"
  have last: "buf ! (pos + 4) AND 0x80 = 0"
    using a cont_bit [of "buf ! (pos + 4)"] by auto
  have conts: "buf ! (pos + k) AND 0x80 \<noteq> 0" if "k < 4" for k
    using a that by (auto simp: cont_bit)
  have "\<exists>v. read_int_loop buf pos 5 0 0 = Inr (v, Suc 4)"
    by (rule read_int_loop_accepts [OF _ _ conts last]) simp_all
  moreover have "\<not> mx - pos < 5" using a by auto
  ultimately show "\<exists>i. read_int buf pos mx = Inr (i, pos + 5)"
    by (auto simp: read_int_def Let_def)
qed


theorem read_int_discards_high_bits_witness:
  "sint (- (2 ^ 31) :: 64 word)
     = zigzag_decode (varint_payload (take (5 - 0) (drop 0 [0xFF, 0xFF, 0xFF, 0xFF, 0x7F])) mod 2 ^ 32)
   \<and> (\<exists>i. read_int [0xFF, 0xFF, 0xFF, 0xFF, 0x7F] 0 5 = Inr (i, 0 + 5))"
proof -
  let ?buf = "[0xFF, 0xFF, 0xFF, 0xFF, 0x7F] :: byte list"
  have h1: "(0::nat) \<le> 5 \<and> 5 \<le> length ?buf \<and> read_int ?buf 0 5 = Inr (- (2 ^ 31), 5)"
    by code_simp
  have h2: "0 + 5 \<le> (5::nat) \<and> (\<forall>k<4. bit (?buf ! (0 + k)) 7) \<and> \<not> bit (?buf ! (0 + 4)) 7"
    unfolding all4 by code_simp
  show ?thesis
    using read_int_discards_high_bits [of 0 5 ?buf "- (2 ^ 31)" 5] h1 h2 by blast
qed

section \<open>Properties of the date encoders\<close>

lemma smod_nonneg: "0 \<le> (k::int) \<Longrightarrow> 0 < l \<Longrightarrow> k smod l = k mod l"
  by (cases "k = 0") (simp_all add: signed_modulo_int_def sgn_if)

lemma month_cases:
  "1 \<le> (month::int) \<Longrightarrow> month \<le> 12 \<Longrightarrow>
   month = 1 \<or> month = 2 \<or> month = 3 \<or> month = 4 \<or> month = 5 \<or> month = 6
   \<or> month = 7 \<or> month = 8 \<or> month = 9 \<or> month = 10 \<or> month = 11 \<or> month = 12"
  by arith

lemma compute_days_in_range:
  assumes "1 \<le> month" "month \<le> 12" "1 \<le> day"
  shows "(\<exists>yd wd. compute_days year month day = Inr (Some (yd, wd))) \<and> valid_date year month day
         \<or> compute_days year month day = Inr None \<and> \<not> valid_date year month day"
proof (cases "year < 1000 \<or> year > 2900")
  case True
  then show ?thesis
    by (auto simp: compute_days_def MIN_YEAR_def MAX_YEAR_def valid_date_def)
next
  case False
  then have y: "0 \<le> year" by simp
  have sm: "year smod 4 = year mod 4" "year smod 100 = year mod 100" "year smod 400 = year mod 400"
    using y by (simp_all add: smod_nonneg)
  from month_cases [OF assms(1,2)] show ?thesis
    using False assms(3)
    by (elim disjE)
       (auto simp: compute_days_def MIN_YEAR_def MAX_YEAR_def valid_date_def table_get_def
          Let_def sm days_in_month_def leap_year_def)
qed

text \<open>
  Claim C4, as amended.  Within the documented precondition of \<open>encode_date\<close> and
  \<open>encode_datetime\<close> (month in 1..12, day in 1..31) both functions succeed with a packed
  value exactly for the valid dates: year in 1000..2900 and day at most the length of the
  month, February 29 only in leap years.  Otherwise they return 0 and produce no value.  No
  table is read out of range there.
\<close>

theorem encode_date_validates_documented_range:
  assumes "1 \<le> month" "month \<le> 12" "1 \<le> day" "day \<le> 31"
  shows "(valid_date year month day \<longrightarrow>
            (\<exists>d. encode_date year month day = Inr (Some d))
            \<and> (\<exists>dt. encode_datetime year month day hour minute second millisecond
                        = Inr (Some dt)))
         \<and> (\<not> valid_date year month day \<longrightarrow>
              encode_date year month day = Inr None
              \<and> encode_datetime year month day hour minute second millisecond = Inr None)"
  using compute_days_in_range [OF assms(1,2,3), of year]
  by (auto simp: encode_date_def encode_datetime_def)

theorem encode_date_validates_documented_range_witness:
  "(\<exists>d. encode_date 2024 2 29 = Inr (Some d))
   \<and> (\<exists>dt. encode_datetime 2024 2 29 23 59 59 999 = Inr (Some dt))
   \<and> encode_date 2023 2 29 = Inr None
   \<and> encode_datetime 2023 2 29 23 59 59 999 = Inr None"
proof -
  have v: "valid_date 2024 2 29" "\<not> valid_date 2023 2 29"
    by (simp_all add: valid_date_def days_in_month_def leap_year_def)
  show ?thesis
    using encode_date_validates_documented_range [of 2 29 2024 23 59 59 999]
      encode_date_validates_documented_range [of 2 29 2023 23 59 59 999] v
    by simp
qed

text \<open>
  The claim as written fails outside that precondition: day 0 is packed as if it were
  valid, and month 13 reads past the end of the month tables.
\<close>

theorem encode_date_unvalidated_counterexample:
  "\<not> valid_date 2024 1 0 \<and> encode_date 2024 1 0 = Inr (Some 260177921)
   \<and> \<not> valid_date 2024 13 1 \<and> encode_date 2024 13 1 = Inl OutOfBoundsRead
   \<and> encode_datetime 2024 13 1 0 0 0 0 = Inl OutOfBoundsRead"
  by (simp add: valid_date_def days_in_month_def leap_year_def) code_simp


section \<open>Properties of records\<close>

lemma Record_new_loop_rtype: "rtype (Record_new_loop self ixs) = rtype self"
  by (induction ixs arbitrary: self) auto

lemma Record_new_loop_length:
  "length (column_values (Record_new_loop self ixs)) = length (column_values self)"
  by (induction ixs arbitrary: self) auto

lemma Record_new_loop_size: "size_cached (Record_new_loop self ixs) = size_cached self"
  by (induction ixs arbitrary: self) auto

lemma Record_new_loop_nth:
  "i < length (column_values self) \<Longrightarrow>
   column_values (Record_new_loop self ixs) ! i =
     (if i \<in> set ixs
      then (column_values self ! i)
             \<lparr>len := - (if is_nullable (column_defs (rtype self) ! i) then 1 else 0)\<rparr>
      else column_values self ! i)"
proof (induction ixs arbitrary: self)
  case Nil
  then show ?case by simp
next
  case (Cons j ixs)
  let ?self' = "self\<lparr>column_values := (column_values self)
          [j := (column_values self ! j)
             \<lparr>len := - (if is_nullable (column_defs (rtype self) ! j) then 1 else 0)\<rparr>]\<rparr>"
  have "i < length (column_values ?self')" using Cons.prems by simp
  from Cons.IH [OF this] show ?case
    using Cons.prems by (cases "i = j") (auto simp: nth_list_update)
qed

text \<open>
  Claim C9.  A record fresh from \<open>Record_new\<close> has one cell per column of its type; the cell
  of a nullable column is null (\<open>len = -1\<close>), the cell of any other column has \<open>len = 0\<close>, and
  in both cases the payload is zero (no buffer, all scalar bytes 0).  The size cache is empty.
\<close>

theorem Record_new_cells:
  "rtype (Record_new t) = t \<and> size_cached (Record_new t) = 0
   \<and> length (column_values (Record_new t)) = length (column_defs t)
   \<and> (\<forall>i < length (column_defs t).
         column_values (Record_new t) ! i =
           \<lparr>data = None, raw = 0, len = (if is_nullable (column_defs t ! i) then - 1 else 0)\<rparr>)"
  by (simp add: Record_new_def Let_def Record_new_loop_rtype Record_new_loop_length
      Record_new_loop_size Record_new_loop_nth tp_alloc_def)

theorem Record_new_cells_witness:
  "column_values (Record_new \<lparr>type_id = 1, column_defs = [column CDT_INT True, column CDT_STRING False]\<rparr>)
     = [\<lparr>data = None, raw = 0, len = - 1\<rparr>, \<lparr>data = None, raw = 0, len = 0\<rparr>]"
proof -
  let ?t = "\<lparr>type_id = 1, column_defs = [column CDT_INT True, column CDT_STRING False]\<rparr>"
  have "length (column_values (Record_new ?t)) = 2"
    and "column_values (Record_new ?t) ! 0 = \<lparr>data = None, raw = 0, len = - 1\<rparr>"
    and "column_values (Record_new ?t) ! 1 = \<lparr>data = None, raw = 0, len = 0\<rparr>"
    using Record_new_cells [of ?t] by (simp_all add: column_def)
  then show ?thesis
    by (intro nth_equalityI) (auto simp: less_Suc_eq numeral_2_eq_2)
qed

lemma clear_column_other:
  "i \<noteq> j \<Longrightarrow> column_values (clear_column t r i from_python) ! j = column_values r ! j"
  by (cases t)
     (simp_all add: clear_bytes_column_def clear_simple_column_def clear_string_column_def)

lemma read_record_error_first_cell:
  "column_values (read_record_error r i) ! 0 = column_values r ! 0"
proof (induction r i rule: read_record_error.induct)
  case (1 r i)
  show ?case
  proof (cases "i > 0")
    case True
    then show ?thesis
      using "1.IH" [OF True]
      by (subst read_record_error.simps) (simp add: clear_column_other del: read_record_error.simps)
  next
    case False
    then show ?thesis by (subst read_record_error.simps) (simp del: read_record_error.simps)
  qed
qed

text \<open>
  Claim C2 does not hold of the code.  The loop at the label \<open>error\<close> of \<open>read_record\<close> clears
  the cells \<open>i\<close> down to 1 and never cell 0 (lemma \<open>read_record_error_first_cell\<close>).  Here a
  record of two \<open>int\<close> columns is decoded from the single byte \<open>0x54\<close>: column 0 decodes to
  42, column 1 meets the end of the buffer, \<open>EOFError\<close> is raised, and cell 0 still holds 42.
\<close>

theorem read_record_keeps_first_cell:
  "Record_decode (Record_new \<lparr>type_id = 1, column_defs = [column CDT_INT False, column CDT_INT False]\<rparr>)
     [0x54] None
   = (\<lparr>rtype = \<lparr>type_id = 1, column_defs = [column CDT_INT False, column CDT_INT False]\<rparr>,
        size_cached = 0,
        column_values = [\<lparr>data = None, raw = 42, len = 0\<rparr>, \<lparr>data = None, raw = 0, len = 0\<rparr>]\<rparr>,
      Inl (Exception PyExc_EOFError ''incomplete binary data''))"
  by code_simp

text \<open>
  Claim C1 does not hold of the code.  \<open>write_digits\<close> refuses to write digits that end
  exactly at \<open>max\<close>, so a record whose last column is a date cannot be encoded into the
  buffer of \<open>size_record\<close> bytes that \<open>Record_encode\<close> allocates.  Here the bytes of the date
  2024-02-29 decode into a record of one non-nullable date column, and encoding that record
  raises \<open>EOFError\<close>.
\<close>

theorem Record_encode_date_fails:
  "Record_decode (Record_new \<lparr>type_id = 1, column_defs = [column CDT_DATE False]\<rparr>)
     (0x14 # ascii ''2024-02-29'') None
   = (\<lparr>rtype = \<lparr>type_id = 1, column_defs = [column CDT_DATE False]\<rparr>, size_cached = 0,
        column_values = [\<lparr>data = None, raw = 260428261, len = 0\<rparr>]\<rparr>, Inr ())
   \<and> encode_date 2024 2 29 = Inr (Some 260428261)
   \<and> Record_encode
       \<lparr>rtype = \<lparr>type_id = 1, column_defs = [column CDT_DATE False]\<rparr>, size_cached = 0,
        column_values = [\<lparr>data = None, raw = 260428261, len = 0\<rparr>]\<rparr>
     = (\<lparr>rtype = \<lparr>type_id = 1, column_defs = [column CDT_DATE False]\<rparr>, size_cached = 11,
         column_values = [\<lparr>data = None, raw = 260428261, len = 0\<rparr>]\<rparr>,
        Inl (Exception PyExc_EOFError ''insufficient buffer size''))"
  by code_simp

text \<open>
  Claim C5 does not hold of the code.  The loop of \<open>read_digits\<close> tests
  \<open>temp_digits <= max_digits\<close>, so it consumes one digit more than \<open>max_digits\<close>: with a
  maximum of 3 it reads the four digits of 1234.  A time column therefore accepts
  09:00:00.1234 and stores 1234 unscaled in the ten-bit millisecond field, which is the
  packed time 09:00:01.210.
\<close>

theorem read_digits_reads_past_max_digits:
  "read_digits (ascii ''1234'') 0 4 1 3 0 999999 = Inr (1234, 4, 4)
   \<and> Record_decode (Record_new \<lparr>type_id = 1, column_defs = [column CDT_TIME False]\<rparr>)
       (0x1A # ascii ''09:00:00.1234'') None
     = (\<lparr>rtype = \<lparr>type_id = 1, column_defs = [column CDT_TIME False]\<rparr>, size_cached = 0,
          column_values = [\<lparr>data = None, raw = encode_time 9 0 0 1234, len = 0\<rparr>]\<rparr>, Inr ())
   \<and> encode_time 9 0 0 1234 = encode_time 9 0 1 210"
  by code_simp


end
